theory Spec2Isabelle
  imports Complex_Main
begin

section \<open>JavaScript numbers and arrays\<close>

text \<open>
  The page's arithmetic is on JavaScript numbers. They are modelled as real numbers
  extended by the three non-finite values a division by a zero cell size produces
  (rounding and the sign of zero are left out). Pointer coordinates are finite; the canvas
  width and height are the DOM's unsigned integers; \<open>Date.now()\<close> is an integer number
  of milliseconds.
\<close>

datatype jsnum = Num real | PosInf | NegInf | NaN

text \<open>\<open>a / b\<close> for finite operands: a zero divisor gives an infinity of the sign of \<open>a\<close>, or NaN.\<close>

definition js_div :: "real \<Rightarrow> real \<Rightarrow> jsnum" where
  "js_div a b =
     (if b \<noteq> 0 then Num (a / b)
      else if 0 < a then PosInf else if a < 0 then NegInf else NaN)"

fun js_floor :: "jsnum \<Rightarrow> jsnum" where
  "js_floor (Num r) = Num (of_int \<lfloor>r\<rfloor>)"
| "js_floor v = v"

text \<open>The infinity (or NaN) whose sign is the sign of \<open>s\<close>.\<close>

definition js_inf :: "real \<Rightarrow> jsnum" where
  "js_inf s = (if 0 < s then PosInf else if s < 0 then NegInf else NaN)"

fun js_sgn :: "jsnum \<Rightarrow> real" where
  "js_sgn (Num r) = sgn r"
| "js_sgn PosInf = 1"
| "js_sgn NegInf = - 1"
| "js_sgn NaN = 0"

fun js_mul :: "jsnum \<Rightarrow> jsnum \<Rightarrow> jsnum" where
  "js_mul (Num a) (Num b) = Num (a * b)"
| "js_mul NaN _ = NaN"
| "js_mul _ NaN = NaN"
| "js_mul a b = js_inf (js_sgn a * js_sgn b)"

fun js_add :: "jsnum \<Rightarrow> jsnum \<Rightarrow> jsnum" where
  "js_add (Num a) (Num b) = Num (a + b)"
| "js_add NaN _ = NaN"
| "js_add _ NaN = NaN"
| "js_add PosInf NegInf = NaN"
| "js_add NegInf PosInf = NaN"
| "js_add PosInf _ = PosInf"
| "js_add _ PosInf = PosInf"
| "js_add NegInf _ = NegInf"
| "js_add _ NegInf = NegInf"

fun js_neg :: "jsnum \<Rightarrow> jsnum" where
  "js_neg (Num a) = Num (- a)"
| "js_neg PosInf = NegInf"
| "js_neg NegInf = PosInf"
| "js_neg NaN = NaN"

definition js_sub :: "jsnum \<Rightarrow> jsnum \<Rightarrow> jsnum" where
  "js_sub a b = js_add a (js_neg b)"

text \<open>Comparisons: every comparison with NaN is false.\<close>

fun js_lt :: "jsnum \<Rightarrow> jsnum \<Rightarrow> bool" where
  "js_lt (Num a) (Num b) = (a < b)"
| "js_lt NaN _ = False"
| "js_lt _ NaN = False"
| "js_lt _ NegInf = False"
| "js_lt PosInf _ = False"
| "js_lt _ _ = True"

fun js_eq :: "jsnum \<Rightarrow> jsnum \<Rightarrow> bool" where
  "js_eq NaN _ = False"
| "js_eq _ NaN = False"
| "js_eq a b = (a = b)"

definition js_le :: "jsnum \<Rightarrow> jsnum \<Rightarrow> bool" where
  "js_le a b = (js_lt a b \<or> js_eq a b)"

definition js_ge :: "jsnum \<Rightarrow> jsnum \<Rightarrow> bool" where
  "js_ge a b = js_le b a"

text \<open>\<open>Math.max(a, b)\<close>: NaN if either argument is.\<close>

fun js_max :: "jsnum \<Rightarrow> jsnum \<Rightarrow> jsnum" where
  "js_max NaN _ = NaN"
| "js_max _ NaN = NaN"
| "js_max a b = (if js_lt a b then b else a)"

text \<open>
  An array index: a number is an element index when it is a non-negative integer;
  any other number names a property that is not an element.
\<close>

fun js_index :: "jsnum \<Rightarrow> nat option" where
  "js_index (Num r) = (if 0 \<le> r \<and> of_int \<lfloor>r\<rfloor> = r then Some (nat \<lfloor>r\<rfloor>) else None)"
| "js_index _ = None"

text \<open>Reading \<open>xs[k]\<close>: \<open>None\<close> is JavaScript's \<open>undefined\<close>.\<close>

definition js_get :: "'a list \<Rightarrow> jsnum \<Rightarrow> 'a option" where
  "js_get xs k =
     (case js_index k of
        None \<Rightarrow> None
      | Some i \<Rightarrow> if i < length xs then Some (xs ! i) else None)"

text \<open>
  An array that may have holes is a list of options. Writing \<open>xs[k] = v\<close> past the end
  extends the array with holes; writing at a non-index adds no element.
\<close>

definition js_set :: "'a option list \<Rightarrow> jsnum \<Rightarrow> 'a \<Rightarrow> 'a option list" where
  "js_set xs k v =
     (case js_index k of
        None \<Rightarrow> xs
      | Some i \<Rightarrow>
          if i < length xs then xs[i := Some v]
          else xs @ replicate (i - length xs) None @ [Some v])"

text \<open>\<open>xs.length = n\<close>: truncates, or extends with holes.\<close>

definition js_set_length :: "nat \<Rightarrow> 'a option list \<Rightarrow> 'a option list" where
  "js_set_length n xs = take n xs @ replicate (n - length xs) None"

text \<open>\<open>xs.slice(-n)\<close> for a positive count \<open>n\<close>: the last \<open>n\<close> elements.\<close>

definition slice_last :: "nat \<Rightarrow> 'a list \<Rightarrow> 'a list" where
  "slice_last n xs = drop (length xs - n) xs"

datatype error = RangeError

text \<open>
  The length \<open>Array.from({ length: n }, f)\<close> gives its result: \<open>ToLength\<close> maps NaN and
  everything below 1 to 0 and truncates; a length above \<open>2^32 - 1\<close> makes the array
  constructor throw a RangeError.
\<close>

fun array_length :: "jsnum \<Rightarrow> error + nat" where
  "array_length (Num r) =
     (if \<lfloor>r\<rfloor> \<le> 0 then Inr 0
      else if 4294967295 < \<lfloor>r\<rfloor> then Inl RangeError
      else Inr (nat \<lfloor>r\<rfloor>))"
| "array_length PosInf = Inl RangeError"
| "array_length NegInf = Inr 0"
| "array_length NaN = Inr 0"

definition array_from :: "jsnum \<Rightarrow> (nat \<Rightarrow> 'a) \<Rightarrow> error + 'a list" where
  "array_from n f =
     (case array_length n of
        Inl e \<Rightarrow> Inl e
      | Inr len \<Rightarrow> Inr (map f [0..<len]))"

section \<open>The scale\<close>

definition baseFreq :: real where
  "baseFreq = 130.81"

definition highlightDuration :: real where
  "highlightDuration = 500"

text \<open>The callback of \<open>generateScale\<close>: \<open>baseFreq * Math.pow(2, i / 12)\<close>.\<close>

definition semitone :: "nat \<Rightarrow> real" where
  "semitone i = baseFreq * 2 powr (real i / 12)"

text \<open>\<open>generateScale(total)\<close> of the variants that size the scale from the layout.\<close>

definition generateScale :: "jsnum \<Rightarrow> error + real list" where
  "generateScale n = array_from n semitone"

text \<open>The fixed 7 by 16 variant: rows 1 to 5 and columns 1 to 14 carry notes.\<close>

definition rows :: nat where "rows = 7"
definition columns_fixed :: nat where "columns_fixed = 16"
definition noteRows :: nat where "noteRows = 5"
definition noteCols :: nat where "noteCols = 14"
definition totalNotes :: nat where "totalNotes = noteRows * noteCols"

text \<open>\<open>generateScale()\<close> of the fixed variant: \<open>Array.from({ length: totalNotes }, ...)\<close>.\<close>

definition generateScale_fixed :: "real list" where
  "generateScale_fixed = map semitone [0..<totalNotes]"

section \<open>Data model\<close>

record Shape =
  shape_x :: real
  shape_y :: real
  shape_size :: real
  shape_color :: "string option"
  shape_type :: "string option"
  shape_alpha :: real
  shape_vx :: real
  shape_vy :: real
  shape_life :: real

record Particle =
  p_x :: real
  p_y :: real
  p_size :: real
  p_vx :: real
  p_vy :: real
  p_alpha :: real
  p_life :: real
  p_angle :: real

record CellHighlight =
  ch_alpha :: real
  ch_scale :: real
  ch_time :: int

definition COLORS :: "string list" where
  "COLORS = [''#FF1461'', ''#18FF92'', ''#5A87FF'', ''#FBF38C'']"

definition SHAPES :: "string list" where
  "SHAPES = [''circle'', ''square'', ''triangle'']"

text \<open>
  What the page reads from its host: the two audio preconditions (\<open>hasAudioContext\<close>
  says that \<open>window.AudioContext\<close> or \<open>window.webkitAudioContext\<close> exists), the window
  size, and the sequence of values \<open>Math.random()\<close> returns.
\<close>

record browser =
  isSecureContext :: bool
  hasAudioContext :: bool
  innerWidth :: real
  innerHeight :: real
  random :: "nat \<Rightarrow> real"

record canvas =
  canvas_width :: nat
  canvas_height :: nat

text \<open>
  The audio output device is an external collaborator: the model records each oscillator
  the page schedules (wave form, frequency as passed, initial gain, duration in seconds)
  and each console warning. A call of one of the two players is recorded as well. The
  calls into the audio interface are taken to succeed, so the \<open>catch\<close> of \<open>playSound\<close>,
  which logs an exception of that interface, has no counterpart here.
\<close>

datatype wave = Triangle | Square

datatype event = Warn string | Oscillator wave "real option" jsnum real

datatype call = PlaySound "real option" jsnum | PlayDrum jsnum

text \<open>
  The component's refs and the module-level \<open>columns\<close>, in one record for all variants;
  \<open>randomCalls\<close> counts the calls of \<open>Math.random()\<close> made so far.
\<close>

record state =
  shapesRef :: "Shape list"
  particlesRef :: "Particle list"
  audioContextRef :: bool
  lastSoundTimeRef :: int
  cellHighlightsRef :: "CellHighlight option list"
  cellSizeRef :: real
  columnsRef :: jsnum
  columns :: nat
  noteColsRef :: nat
  noteRowsRef :: nat
  totalNotesRef :: nat
  scaleRef :: "real list"
  randomCalls :: nat
  calls :: "call list"
  effects :: "event list"

definition initial_state :: state where
  "initial_state =
     \<lparr>shapesRef = [], particlesRef = [], audioContextRef = False, lastSoundTimeRef = 0,
      cellHighlightsRef = [], cellSizeRef = 150, columnsRef = Num 0, columns = 16,
      noteColsRef = 0, noteRowsRef = 0, totalNotesRef = 0, scaleRef = [],
      randomCalls = 0, calls = [], effects = []\<rparr>"

section \<open>Shapes and particles\<close>

text \<open>\<open>createShape(x, y)\<close>; \<open>k\<close> is the index of its first \<open>Math.random()\<close> call.\<close>

definition createShape :: "browser \<Rightarrow> nat \<Rightarrow> real \<Rightarrow> real \<Rightarrow> Shape" where
  "createShape b k x y =
     \<lparr>shape_x = x, shape_y = y,
      shape_size = random b k * 20 + 5,
      shape_color = js_get COLORS (js_floor (Num (random b (k + 1) * real (length COLORS)))),
      shape_type = js_get SHAPES (js_floor (Num (random b (k + 2) * real (length SHAPES)))),
      shape_alpha = 1,
      shape_vx = (random b (k + 3) - 0.5) * 2,
      shape_vy = (random b (k + 4) - 0.5) * 2,
      shape_life = 1\<rparr>"

text \<open>\<open>createParticle(x, y)\<close> of the variants with cell highlights.\<close>

definition createParticle :: "browser \<Rightarrow> nat \<Rightarrow> real \<Rightarrow> real \<Rightarrow> Particle" where
  "createParticle b k x y =
     \<lparr>p_x = x, p_y = y,
      p_size = random b k * 3 + 5,
      p_vx = (random b (k + 1) - 0.5) * 4,
      p_vy = (random b (k + 2) - 0.5) * 0.5,
      p_alpha = 1, p_life = 1,
      p_angle = random b (k + 3) * 360\<rparr>"

text \<open>\<open>shapesRef.current.push(createShape(x, y))\<close> and its particle twin.\<close>

definition push_shape :: "browser \<Rightarrow> real \<Rightarrow> real \<Rightarrow> state \<Rightarrow> state" where
  "push_shape b x y s =
     s\<lparr>shapesRef := shapesRef s @ [createShape b (randomCalls s) x y],
       randomCalls := randomCalls s + 5\<rparr>"

definition push_particle :: "browser \<Rightarrow> real \<Rightarrow> real \<Rightarrow> state \<Rightarrow> state" where
  "push_particle b x y s =
     s\<lparr>particlesRef := particlesRef s @ [createParticle b (randomCalls s) x y],
       randomCalls := randomCalls s + 4\<rparr>"

section \<open>The tone generator\<close>

text \<open>
  \<open>playSound(frequency, volume)\<close>: warns and returns outside a secure context or when no
  AudioContext class exists; otherwise creates the context on first use and schedules a
  triangle oscillator decaying over half a second.
\<close>

definition playSound :: "browser \<Rightarrow> real option \<Rightarrow> jsnum \<Rightarrow> state \<Rightarrow> state" where
  "playSound b frequency volume s0 =
     (let s = s0\<lparr>calls := calls s0 @ [PlaySound frequency volume]\<rparr> in
      if \<not> isSecureContext b then
        s\<lparr>effects := effects s @ [Warn ''AudioContext requires secure context (HTTPS)'']\<rparr>
      else if \<not> audioContextRef s \<and> \<not> hasAudioContext b then
        s\<lparr>effects := effects s @ [Warn ''AudioContext not supported'']\<rparr>
      else
        s\<lparr>audioContextRef := True,
          effects := effects s @ [Oscillator Triangle frequency volume 0.5]\<rparr>)"

text \<open>
  \<open>playDrum(volume)\<close>: warns and returns when no AudioContext class exists; otherwise
  creates the context on first use and schedules a 60 Hz square oscillator for a tenth of
  a second. It does not look at \<open>window.isSecureContext\<close>.
\<close>

definition playDrum :: "browser \<Rightarrow> jsnum \<Rightarrow> state \<Rightarrow> state" where
  "playDrum b volume s0 =
     (let s = s0\<lparr>calls := calls s0 @ [PlayDrum volume]\<rparr> in
      if \<not> audioContextRef s \<and> \<not> hasAudioContext b then
        s\<lparr>effects := effects s @ [Warn ''AudioContext not supported'']\<rparr>
      else
        s\<lparr>audioContextRef := True,
          effects := effects s @ [Oscillator Square (Some 60) volume 0.1]\<rparr>)"

section \<open>The grid mapper and the interaction handlers\<close>

text \<open>\<open>Math.floor(v / cellSize)\<close>.\<close>

definition cell_of :: "real \<Rightarrow> real \<Rightarrow> jsnum" where
  "cell_of v cellSize = js_floor (js_div v cellSize)"

text \<open>\<open>Math.max(0.1, 1 - (y / canvas.height) * 0.9)\<close>.\<close>

definition volume_of :: "real \<Rightarrow> canvas \<Rightarrow> jsnum" where
  "volume_of y cv =
     js_max (Num 0.1)
       (js_sub (Num 1) (js_mul (js_div y (real (canvas_height cv))) (Num 0.9)))"

definition new_highlight :: "int \<Rightarrow> CellHighlight" where
  "new_highlight currentTime = \<lparr>ch_alpha = 1, ch_scale = 1.2, ch_time = currentTime\<rparr>"

text \<open>
  \<open>handleInteractionLogic(x, y, canvas)\<close> of the fixed 7 by 16 variant; \<open>now\<close> is what
  \<open>Date.now()\<close> returns during the call.
\<close>

definition handleInteractionLogic_fixed ::
  "browser \<Rightarrow> int \<Rightarrow> real \<Rightarrow> real \<Rightarrow> canvas \<Rightarrow> state \<Rightarrow> state" where
  "handleInteractionLogic_fixed b now x y cv s0 =
     (let s1 = s0\<lparr>cellSizeRef := real (canvas_height cv) / real rows\<rparr>;
          cellX = cell_of x (cellSizeRef s1);
          cellY = cell_of y (cellSizeRef s1);
          s2 = (push_shape b x y ^^ 3) s1;
          s3 = (push_particle b x y ^^ 2) s2;
          currentTime = now;
          volume = volume_of y cv
      in
      if js_eq cellY (Num 0) \<or> js_eq cellY (Num (real rows - 1)) then s3
      else if js_eq cellX (Num 0) \<or> js_eq cellX (Num (real columns_fixed - 1)) then
        (if currentTime - lastSoundTimeRef s3 > 100
         then (playDrum b volume s3)\<lparr>lastSoundTimeRef := currentTime\<rparr>
         else s3)
      else if js_ge cellX (Num 1) \<and> js_le cellX (Num 14) \<and>
              js_ge cellY (Num 1) \<and> js_le cellY (Num 5) then
        (let noteRow = js_sub cellY (Num 1);
             noteCol = js_sub cellX (Num 1);
             noteIndex = js_add (js_mul noteRow (Num (real noteCols))) noteCol;
             frequency = js_get (scaleRef s3) noteIndex;
             s4 = (if currentTime - lastSoundTimeRef s3 > 100
                   then (playSound b frequency volume s3)\<lparr>lastSoundTimeRef := currentTime\<rparr>
                   else s3);
             cellIndex = js_add (js_mul cellY (Num (real columns_fixed))) cellX
         in s4\<lparr>cellHighlightsRef :=
                  js_set (cellHighlightsRef s4) cellIndex (new_highlight currentTime)\<rparr>)
      else s3)"

text \<open>The mount effect of the fixed variant: \<open>scaleRef.current = generateScale()\<close>.\<close>

definition mount_fixed :: "state \<Rightarrow> state" where
  "mount_fixed s = s\<lparr>scaleRef := generateScale_fixed\<rparr>"

subsection \<open>The variant that chooses 16 or 9 columns by orientation\<close>

record layoutParams =
  currentColumns :: nat
  lp_noteCols :: nat
  lp_noteRows :: nat
  lp_totalNotes :: nat

definition orientationIsPortrait :: "browser \<Rightarrow> bool" where
  "orientationIsPortrait b = (innerHeight b > innerWidth b)"

definition getLayoutParams :: "browser \<Rightarrow> layoutParams" where
  "getLayoutParams b =
     (let isPortrait = orientationIsPortrait b;
          cols = (if isPortrait then 9 else 16);
          nCols = cols - 2;
          nRows = 5
      in \<lparr>currentColumns = cols, lp_noteCols = nCols, lp_noteRows = nRows,
          lp_totalNotes = nRows * nCols\<rparr>)"

text \<open>
  \<open>updateLayoutAndScale(canvas)\<close>, run on mount and on every resize. Its first lines size
  the canvas element from the window; the canvas is an argument of every handler below,
  so only the writes to the component's own state are kept here.
\<close>

definition updateLayoutAndScale :: "browser \<Rightarrow> state \<Rightarrow> error + state" where
  "updateLayoutAndScale b s =
     (let lp = getLayoutParams b in
      case generateScale (Num (real (lp_totalNotes lp))) of
        Inl e \<Rightarrow> Inl e
      | Inr sc \<Rightarrow>
          Inr (s\<lparr>columns := currentColumns lp,
                 noteColsRef := lp_noteCols lp,
                 noteRowsRef := lp_noteRows lp,
                 totalNotesRef := lp_totalNotes lp,
                 scaleRef := sc\<rparr>))"

definition handleInteractionLogic_layout ::
  "browser \<Rightarrow> int \<Rightarrow> real \<Rightarrow> real \<Rightarrow> canvas \<Rightarrow> state \<Rightarrow> state" where
  "handleInteractionLogic_layout b now x y cv s0 =
     (let s1 = s0\<lparr>cellSizeRef := real (canvas_height cv) / real rows\<rparr>;
          cellX = cell_of x (cellSizeRef s1);
          cellY = cell_of y (cellSizeRef s1);
          s2 = (push_shape b x y ^^ 3) s1;
          s3 = (push_particle b x y ^^ 2) s2;
          currentTime = now;
          volume = volume_of y cv
      in
      if js_eq cellY (Num 0) \<or> js_eq cellY (Num (real rows - 1)) then s3
      else if js_eq cellX (Num 0) \<or> js_eq cellX (Num (real (columns s3) - 1)) then
        (if currentTime - lastSoundTimeRef s3 > 100
         then (playDrum b volume s3)\<lparr>lastSoundTimeRef := currentTime\<rparr>
         else s3)
      else
        (let noteColsDynamic = Num (real (columns s3) - 2) in
         if js_ge cellX (Num 1) \<and> js_le cellX noteColsDynamic \<and>
            js_ge cellY (Num 1) \<and> js_le cellY (Num 5) then
           (let noteRow = js_sub cellY (Num 1);
                noteCol = js_sub cellX (Num 1);
                noteIndex = js_add (js_mul noteRow noteColsDynamic) noteCol
            in
            if js_lt noteIndex (Num (real (length (scaleRef s3)))) then
              (let frequency = js_get (scaleRef s3) noteIndex;
                   s4 = (if currentTime - lastSoundTimeRef s3 > 100
                         then (playSound b frequency volume s3)
                                \<lparr>lastSoundTimeRef := currentTime\<rparr>
                         else s3);
                   cellIndex = js_add (js_mul cellY (Num (real (columns s4)))) cellX
               in s4\<lparr>cellHighlightsRef :=
                        js_set (cellHighlightsRef s4) cellIndex (new_highlight currentTime)\<rparr>)
            else s3)
         else s3))"

subsection \<open>The variant with 8 rows and as many columns as fit\<close>

definition rows_dyn :: nat where "rows_dyn = 8"

text \<open>
  Its handler recomputes the column count and regenerates the scale on every call. If that
  throws (a canvas of height 0 gives infinitely many columns), the call is abandoned
  before anything is spawned.
\<close>

definition handleInteractionLogic_dyn ::
  "browser \<Rightarrow> int \<Rightarrow> real \<Rightarrow> real \<Rightarrow> canvas \<Rightarrow> state \<Rightarrow> error + state" where
  "handleInteractionLogic_dyn b now x y cv s0 =
     (let s1 = s0\<lparr>cellSizeRef := real (canvas_height cv) / real rows_dyn\<rparr>;
          s1 = s1\<lparr>columnsRef := js_floor (js_div (real (canvas_width cv)) (cellSizeRef s1))\<rparr>;
          totalCells = js_mul (Num (real rows_dyn)) (columnsRef s1)
      in
      case generateScale totalCells of
        Inl e \<Rightarrow> Inl e
      | Inr sc \<Rightarrow>
          (let cellX = cell_of x (cellSizeRef s1);
               cellY = cell_of y (cellSizeRef s1);
               s2 = (push_shape b x y ^^ 3) s1;
               s3 = (push_particle b x y ^^ 2) s2
           in
           if js_ge cellX (Num 0) \<and> js_lt cellX (columnsRef s3) \<and>
              js_ge cellY (Num 0) \<and> js_lt cellY (Num (real rows_dyn)) then
             (let cellIndex = js_add (js_mul cellY (columnsRef s3)) cellX in
              if js_lt cellIndex (Num (real (length sc))) then
                (let frequency = js_get sc cellIndex;
                     volume = volume_of y cv;
                     currentTime = now;
                     s4 = (if currentTime - lastSoundTimeRef s3 > 100
                           then (playSound b frequency volume s3)
                                  \<lparr>lastSoundTimeRef := currentTime\<rparr>
                           else s3)
                 in Inr (s4\<lparr>cellHighlightsRef :=
                              js_set (cellHighlightsRef s4) cellIndex
                                (new_highlight currentTime)\<rparr>))
              else Inr s3)
           else Inr s3))"

subsection \<open>The variant with 150-pixel cells whose bottom three rows are silent\<close>





subsection \<open>The particle-only variant with 100-pixel cells\<close>



section \<open>The cell highlight tracker and the render loop\<close>

text \<open>One pass of the loop body of \<open>drawCellHighlights\<close> over an existing highlight.\<close>

definition highlight_step :: "int \<Rightarrow> CellHighlight \<Rightarrow> CellHighlight" where
  "highlight_step now ch =
     (if ch_alpha ch \<le> 0 then ch
      else
        (let elapsed = now - ch_time ch;
             progress = real_of_int elapsed / highlightDuration
         in
         if progress > 1 then ch\<lparr>ch_alpha := 0\<rparr>
         else ch\<lparr>ch_alpha := 1 - progress, ch_scale := 1 + (0.2 * (1 - progress))\<rparr>))"

text \<open>\<open>drawCellHighlights\<close> where the cell count is a fixed integer (holes are skipped).\<close>

definition drawCellHighlights :: "nat \<Rightarrow> int \<Rightarrow> state \<Rightarrow> state" where
  "drawCellHighlights totalCells now s =
     (let hs = (if length (cellHighlightsRef s) \<noteq> totalCells
                then js_set_length totalCells (cellHighlightsRef s)
                else cellHighlightsRef s)
      in s\<lparr>cellHighlightsRef := map (map_option (highlight_step now)) hs\<rparr>)"

text \<open>
  Assigning \<open>xs.length = n\<close> for a number \<open>n\<close>: a RangeError unless \<open>n\<close> is an integer
  between 0 and \<open>2^32 - 1\<close>.
\<close>

fun assign_length :: "jsnum \<Rightarrow> 'a option list \<Rightarrow> error + 'a option list" where
  "assign_length (Num r) xs =
     (if 0 \<le> r \<and> r \<le> 4294967295 \<and> of_int \<lfloor>r\<rfloor> = r
      then Inr (js_set_length (nat \<lfloor>r\<rfloor>) xs)
      else Inl RangeError)"
| "assign_length _ xs = Inl RangeError"

text \<open>\<open>drawCellHighlights\<close> of the 8-row variant, whose cell count is \<open>rows * columnsRef\<close>.\<close>

definition drawCellHighlights_dyn :: "int \<Rightarrow> state \<Rightarrow> error + state" where
  "drawCellHighlights_dyn now s =
     (let totalCells = js_mul (Num (real rows_dyn)) (columnsRef s) in
      case (if Num (real (length (cellHighlightsRef s))) \<noteq> totalCells
            then assign_length totalCells (cellHighlightsRef s)
            else Inr (cellHighlightsRef s)) of
        Inl e \<Rightarrow> Inl e
      | Inr hs \<Rightarrow> Inr (s\<lparr>cellHighlightsRef := map (map_option (highlight_step now)) hs\<rparr>))"

text \<open>The two filter callbacks of \<open>animate\<close>: age an entity, then keep it while it lives.\<close>

definition age_shape :: "Shape \<Rightarrow> Shape" where
  "age_shape sh =
     (let sh = sh\<lparr>shape_life := shape_life sh - 0.01\<rparr>;
          sh = sh\<lparr>shape_alpha := (shape_life sh)\<^sup>2\<rparr>;
          sh = sh\<lparr>shape_size := shape_size sh + 0.2\<rparr>;
          sh = sh\<lparr>shape_x := shape_x sh + shape_vx sh\<rparr>
      in sh\<lparr>shape_y := shape_y sh + shape_vy sh\<rparr>)"

definition age_particle :: "real \<Rightarrow> Particle \<Rightarrow> Particle" where
  "age_particle growth p =
     (let p = p\<lparr>p_life := p_life p - 0.02\<rparr>;
          p = p\<lparr>p_alpha := (p_life p)\<^sup>2\<rparr>;
          p = p\<lparr>p_size := p_size p + growth\<rparr>;
          p = p\<lparr>p_x := p_x p + p_vx p\<rparr>;
          p = p\<lparr>p_y := p_y p + p_vy p\<rparr>
      in p\<lparr>p_angle := p_angle p + 2\<rparr>)"

definition update_shapes :: "state \<Rightarrow> state" where
  "update_shapes s =
     s\<lparr>shapesRef := filter (\<lambda>sh. shape_life sh > 0) (map age_shape (shapesRef s))\<rparr>"

definition update_particles :: "real \<Rightarrow> state \<Rightarrow> state" where
  "update_particles growth s =
     s\<lparr>particlesRef := filter (\<lambda>p. p_life p > 0) (map (age_particle growth) (particlesRef s))\<rparr>"

text \<open>The trim at the end of \<open>animate\<close>.\<close>

definition MAX_SHAPES :: nat where "MAX_SHAPES = 100"

definition trim_pools :: "nat \<Rightarrow> state \<Rightarrow> state" where
  "trim_pools MAX_PARTICLES s =
     (let s = (if length (shapesRef s) > MAX_SHAPES
               then s\<lparr>shapesRef := slice_last MAX_SHAPES (shapesRef s)\<rparr> else s)
      in if length (particlesRef s) > MAX_PARTICLES
         then s\<lparr>particlesRef := slice_last MAX_PARTICLES (particlesRef s)\<rparr> else s)"

text \<open>
  \<open>animate\<close>, one frame, with the canvas and its 2D context present. Drawing changes
  nothing but the canvas and is left out.
\<close>

definition animate_fixed :: "int \<Rightarrow> canvas \<Rightarrow> state \<Rightarrow> state" where
  "animate_fixed now cv s0 =
     (let s = s0\<lparr>cellSizeRef := real (canvas_height cv) / real rows\<rparr>;
          s = drawCellHighlights (rows * columns_fixed) now s;
          s = update_shapes s;
          s = update_particles 0.05 s
      in trim_pools 100 s)"

definition animate_layout :: "int \<Rightarrow> canvas \<Rightarrow> state \<Rightarrow> state" where
  "animate_layout now cv s0 =
     (let s = s0\<lparr>cellSizeRef := real (canvas_height cv) / real rows\<rparr>;
          s = drawCellHighlights (rows * columns s) now s;
          s = update_shapes s;
          s = update_particles 0.05 s
      in trim_pools 100 s)"

definition animate_dyn :: "int \<Rightarrow> canvas \<Rightarrow> state \<Rightarrow> error + state" where
  "animate_dyn now cv s0 =
     (let s = s0\<lparr>cellSizeRef := real (canvas_height cv) / real rows_dyn\<rparr>;
          s = s\<lparr>columnsRef := js_floor (js_div (real (canvas_width cv)) (cellSizeRef s))\<rparr>
      in
      case drawCellHighlights_dyn now s of
        Inl e \<Rightarrow> Inl e
      | Inr s \<Rightarrow> Inr (trim_pools 100 (update_particles 0.05 (update_shapes s))))"

text \<open>The frame of the 150-pixel variant: no highlights, and room for 200 particles.\<close>

definition animate_const :: "state \<Rightarrow> state" where
  "animate_const s = trim_pools 200 (update_particles 0.2 (update_shapes s))"

section \<open>Named tests of the handlers\<close>

text \<open>
  The fixed variant's handler makes a sound (gate permitting) when the row is not one of
  the two silent rows and the cell is in a drum column or in the note region.
\<close>

definition sound_cell_fixed :: "real \<Rightarrow> real \<Rightarrow> canvas \<Rightarrow> bool" where
  "sound_cell_fixed x y cv =
     (let cellX = cell_of x (real (canvas_height cv) / real rows);
          cellY = cell_of y (real (canvas_height cv) / real rows)
      in \<not> (js_eq cellY (Num 0) \<or> js_eq cellY (Num (real rows - 1))) \<and>
         ((js_eq cellX (Num 0) \<or> js_eq cellX (Num (real columns_fixed - 1))) \<or>
          (js_ge cellX (Num 1) \<and> js_le cellX (Num 14) \<and>
           js_ge cellY (Num 1) \<and> js_le cellY (Num 5))))"

text \<open>The note region test of the fixed variant's handler.\<close>

definition note_cell_fixed :: "real \<Rightarrow> real \<Rightarrow> canvas \<Rightarrow> bool" where
  "note_cell_fixed x y cv =
     (let cellX = cell_of x (real (canvas_height cv) / real rows);
          cellY = cell_of y (real (canvas_height cv) / real rows)
      in js_ge cellX (Num 1) \<and> js_le cellX (Num 14) \<and>
         js_ge cellY (Num 1) \<and> js_le cellY (Num 5))"

text \<open>The bounds test of the 8-row variant's handler.\<close>

definition in_grid_dyn :: "real \<Rightarrow> real \<Rightarrow> canvas \<Rightarrow> bool" where
  "in_grid_dyn x y cv =
     (let cellSize = real (canvas_height cv) / real rows_dyn;
          cols = js_floor (js_div (real (canvas_width cv)) cellSize);
          cellX = cell_of x cellSize;
          cellY = cell_of y cellSize
      in js_ge cellX (Num 0) \<and> js_lt cellX cols \<and>
         js_ge cellY (Num 0) \<and> js_lt cellY (Num (real rows_dyn)))"








section \<open>The page as a sequence of inputs\<close>

text \<open>
  Everything runs on one thread: a resize, a (debounced) pointer or touch move and an
  animation frame are handled one after the other, each to completion. A run is followed
  up to the first uncaught exception.
\<close>

datatype input = Resize browser | Pointer browser int real real canvas | Frame int canvas


text \<open>
  The 8-row variant: its resize listener only resizes the canvas element, which every
  pointer input and frame carries with it.
\<close>

fun run_dyn :: "input list \<Rightarrow> state \<Rightarrow> error + state" where
  "run_dyn [] s = Inr s"
| "run_dyn (Resize b # es) s = run_dyn es s"
| "run_dyn (Pointer b now x y cv # es) s =
     (case handleInteractionLogic_dyn b now x y cv s of
        Inl e \<Rightarrow> Inl e
      | Inr s' \<Rightarrow> run_dyn es s')"
| "run_dyn (Frame now cv # es) s =
     (case animate_dyn now cv s of
        Inl e \<Rightarrow> Inl e
      | Inr s' \<Rightarrow> run_dyn es s')"

text \<open>
  The orientation variant: mounting and every resize call \<open>updateLayoutAndScale\<close>.
\<close>

fun run_layout :: "input list \<Rightarrow> state \<Rightarrow> error + state" where
  "run_layout [] s = Inr s"
| "run_layout (Resize b # es) s =
     (case updateLayoutAndScale b s of
        Inl e \<Rightarrow> Inl e
      | Inr s' \<Rightarrow> run_layout es s')"
| "run_layout (Pointer b now x y cv # es) s =
     run_layout es (handleInteractionLogic_layout b now x y cv s)"
| "run_layout (Frame now cv # es) s = run_layout es (animate_layout now cv s)"

text \<open>The layout refs agree with each other and with the scale.\<close>

definition layout_consistent :: "state \<Rightarrow> bool" where
  "layout_consistent s =
     (length (scaleRef s) = noteRowsRef s * (columns s - 2) \<and>
      totalNotesRef s = length (scaleRef s) \<and>
      noteColsRef s = columns s - 2 \<and>
      noteRowsRef s = 5 \<and>
      (columns s = 16 \<or> columns s = 9))"

section \<open>A concrete host for worked examples\<close>

definition demo_browser :: browser where
  "demo_browser =
     \<lparr>isSecureContext = True, hasAudioContext = True, innerWidth = 1600, innerHeight = 700,
      random = (\<lambda>k. 1 / 2)\<rparr>"

definition demo_canvas :: canvas where
  "demo_canvas = \<lparr>canvas_width = 1600, canvas_height = 700\<rparr>"


definition insecure_browser :: browser where
  "insecure_browser = demo_browser\<lparr>isSecureContext := False\<rparr>"

definition unsupported_browser :: browser where
  "unsupported_browser = demo_browser\<lparr>hasAudioContext := False\<rparr>"

definition landscape_browser :: browser where
  "landscape_browser = demo_browser"

definition portrait_browser :: browser where
  "portrait_browser = demo_browser\<lparr>innerWidth := 700, innerHeight := 1600\<rparr>"

text \<open>
  Sustained pointer movement: thirty-four rounds of one interaction and, 16 ms later,
  one frame, 33 ms apart, and then one more interaction.
\<close>

definition busy_run :: "input list" where
  "busy_run =
     concat (map (\<lambda>t. [Pointer demo_browser t 150 150 demo_canvas, Frame (t + 16) demo_canvas])
               (map (\<lambda>k. 1000 + 33 * int k) [0..<34])) @
     [Pointer demo_browser 2122 150 150 demo_canvas]"

section \<open>Properties\<close>

lemma array_length_nat:
  "n \<le> 4294967295 \<Longrightarrow> array_length (Num (real n)) = Inr n"
  by (cases "n = 0") auto

lemma generateScale_nat:
  "n \<le> 4294967295 \<Longrightarrow> generateScale (Num (real n)) = Inr (map semitone [0..<n])"
  by (simp add: generateScale_def array_from_def array_length_nat)

text \<open>
  C1. For a note count \<open>n\<close> (within the array size limit), \<open>generateScale(n)\<close> returns
  an array of exactly \<open>n\<close> frequencies whose entry \<open>i\<close> is \<open>130.81 * 2^(i/12)\<close>, and
  the fixed variant's \<open>generateScale()\<close> is this sequence for its 70 note cells.
\<close>

theorem generateScale_equal_tempered:
  assumes "n \<le> 4294967295"
  shows "\<exists>scale. generateScale (Num (real n)) = Inr scale \<and> length scale = n \<and>
           (\<forall>i<n. scale ! i = 130.81 * 2 powr (real i / 12)) \<and>
           length generateScale_fixed = 70 \<and>
           (\<forall>i<70. generateScale_fixed ! i = 130.81 * 2 powr (real i / 12))"
  using assms
  by (simp add: generateScale_nat generateScale_fixed_def totalNotes_def noteRows_def
      noteCols_def semitone_def baseFreq_def)

theorem generateScale_equal_tempered_witness:
  "\<exists>scale. generateScale (Num 3) = Inr scale \<and> length scale = 3 \<and>
     scale ! 0 = 130.81 \<and> scale ! 1 = 130.81 * 2 powr (1 / 12) \<and>
     scale ! 2 = 130.81 * 2 powr (2 / 12)"
  using generateScale_equal_tempered [of 3] by (auto simp: numeral_3_eq_3)

subsection \<open>Helper facts about the handlers\<close>

lemma push_shape_funpow:
  "(push_shape b x y ^^ n) s =
     s\<lparr>shapesRef := shapesRef s @ map (\<lambda>i. createShape b (randomCalls s + 5 * i) x y) [0..<n],
       randomCalls := randomCalls s + 5 * n\<rparr>"
  by (induction n) (simp_all add: push_shape_def)

lemma push_particle_funpow:
  "(push_particle b x y ^^ n) s =
     s\<lparr>particlesRef := particlesRef s @ map (\<lambda>i. createParticle b (randomCalls s + 4 * i) x y) [0..<n],
       randomCalls := randomCalls s + 4 * n\<rparr>"
  by (induction n) (simp_all add: push_particle_def)

lemma cell_of_nonzero: "c \<noteq> 0 \<Longrightarrow> cell_of v c = Num (of_int \<lfloor>v / c\<rfloor>)"
  by (simp add: cell_of_def js_div_def)

lemma cell_of_zero: "cell_of v 0 = (if 0 < v then PosInf else if v < 0 then NegInf else NaN)"
  by (simp add: cell_of_def js_div_def)

lemma fixed_calls:
  "calls (handleInteractionLogic_fixed b now x y cv s) =
     calls s @
     (let cellX = cell_of x (real (canvas_height cv) / real rows);
          cellY = cell_of y (real (canvas_height cv) / real rows) in
      if js_eq cellY (Num 0) \<or> js_eq cellY (Num (real rows - 1)) then []
      else if js_eq cellX (Num 0) \<or> js_eq cellX (Num (real columns_fixed - 1)) then
        (if now - lastSoundTimeRef s > 100 then [PlayDrum (volume_of y cv)] else [])
      else if js_ge cellX (Num 1) \<and> js_le cellX (Num 14) \<and>
              js_ge cellY (Num 1) \<and> js_le cellY (Num 5) then
        (if now - lastSoundTimeRef s > 100
         then [PlaySound (js_get (scaleRef s)
                 (js_add (js_mul (js_sub cellY (Num 1)) (Num (real noteCols))) (js_sub cellX (Num 1))))
                 (volume_of y cv)]
         else [])
      else [])"
  by (simp add: handleInteractionLogic_fixed_def Let_def push_shape_funpow push_particle_funpow
      playDrum_def playSound_def)


lemma layout_calls:
  "calls (handleInteractionLogic_layout b now x y cv s) =
     calls s @
     (let cellX = cell_of x (real (canvas_height cv) / real rows);
          cellY = cell_of y (real (canvas_height cv) / real rows);
          noteColsDynamic = Num (real (columns s) - 2);
          noteIndex = js_add (js_mul (js_sub cellY (Num 1)) noteColsDynamic) (js_sub cellX (Num 1)) in
      if js_eq cellY (Num 0) \<or> js_eq cellY (Num (real rows - 1)) then []
      else if js_eq cellX (Num 0) \<or> js_eq cellX (Num (real (columns s) - 1)) then
        (if now - lastSoundTimeRef s > 100 then [PlayDrum (volume_of y cv)] else [])
      else if js_ge cellX (Num 1) \<and> js_le cellX noteColsDynamic \<and>
              js_ge cellY (Num 1) \<and> js_le cellY (Num 5) \<and>
              js_lt noteIndex (Num (real (length (scaleRef s)))) then
        (if now - lastSoundTimeRef s > 100
         then [PlaySound (js_get (scaleRef s) noteIndex) (volume_of y cv)]
         else [])
      else [])"
  by (simp add: handleInteractionLogic_layout_def Let_def push_shape_funpow push_particle_funpow
      playDrum_def playSound_def)

lemma fixed_last:
  "lastSoundTimeRef (handleInteractionLogic_fixed b now x y cv s) =
     (if sound_cell_fixed x y cv \<and> now - lastSoundTimeRef s > 100 then now
      else lastSoundTimeRef s)"
  by (simp add: handleInteractionLogic_fixed_def Let_def push_shape_funpow push_particle_funpow
      playDrum_def playSound_def sound_cell_fixed_def)

lemma fixed_calls_length:
  "length (calls (handleInteractionLogic_fixed b now x y cv s)) =
     (if sound_cell_fixed x y cv \<and> now - lastSoundTimeRef s > 100 then length (calls s) + 1
      else length (calls s))"
  by (simp add: fixed_calls Let_def sound_cell_fixed_def)







lemma sound_cell_150: "sound_cell_fixed 150 150 demo_canvas"
  by (simp add: sound_cell_fixed_def demo_canvas_def rows_def columns_fixed_def cell_of_def
      js_div_def js_ge_def js_le_def)


lemma dyn_pools:
  assumes "handleInteractionLogic_dyn b now x y cv s = Inr s'"
  shows "shapesRef s' = shapesRef s @ map (\<lambda>i. createShape b (randomCalls s + 5 * i) x y) [0..<3]"
    and "particlesRef s' = particlesRef s @
           map (\<lambda>i. createParticle b (randomCalls s + 15 + 4 * i) x y) [0..<2]"
  using assms
  by (auto simp add: handleInteractionLogic_dyn_def Let_def push_shape_funpow
      push_particle_funpow playSound_def split: sum.splits if_splits)





lemma generateScale_of_int:
  assumes "0 \<le> k" and "k \<le> 4294967295"
  shows "generateScale (Num (of_int k)) = Inr (map semitone [0..<nat k])"
  using assms by (simp add: generateScale_def array_from_def)

lemma columns_dyn_bounds:
  assumes "0 < canvas_height cv"
  defines "c \<equiv> \<lfloor>real (canvas_width cv) / (real (canvas_height cv) / real rows_dyn)\<rfloor>"
  shows "0 \<le> c" and "c \<le> 8 * int (canvas_width cv)"
proof -
  let ?w = "real (canvas_width cv)" and ?h = "real (canvas_height cv)"
  have h1: "1 \<le> ?h" using assms(1) by simp
  have eq: "?w / (?h / real rows_dyn) = 8 * ?w / ?h" by (simp add: rows_dyn_def)
  show "0 \<le> c" unfolding c_def by simp
  have "?w * 1 \<le> ?w * ?h"
    using h1 by (intro mult_left_mono) simp_all
  then have "8 * ?w / ?h \<le> 8 * ?w"
    using h1 by (simp add: divide_le_eq)
  then have "?w / (?h / real rows_dyn) \<le> 8 * ?w"
    by (simp only: eq)
  also have "8 * ?w = real_of_int (8 * int (canvas_width cv))"
    by simp
  finally have "?w / (?h / real rows_dyn) \<le> real_of_int (8 * int (canvas_width cv))" .
  then show "c \<le> 8 * int (canvas_width cv)"
    unfolding c_def by (metis floor_mono floor_of_int)
qed

lemma generateScale_dyn:
  assumes "0 < canvas_height cv" and "64 * canvas_width cv \<le> 4294967295"
  shows "generateScale (js_mul (Num (real rows_dyn))
           (js_floor (js_div (real (canvas_width cv)) (real (canvas_height cv) / real rows_dyn)))) =
         Inr (map semitone [0..<nat (8 * \<lfloor>real (canvas_width cv) / (real (canvas_height cv) / real rows_dyn)\<rfloor>)])"
proof -
  let ?c = "\<lfloor>real (canvas_width cv) / (real (canvas_height cv) / real rows_dyn)\<rfloor>"
  have nz: "real (canvas_height cv) / real rows_dyn \<noteq> 0"
    using assms(1) by (simp add: rows_dyn_def)
  have b: "0 \<le> 8 * ?c" "8 * ?c \<le> 4294967295"
    using columns_dyn_bounds [OF assms(1)] assms(2) by linarith+
  have "js_mul (Num (real rows_dyn))
           (js_floor (js_div (real (canvas_width cv)) (real (canvas_height cv) / real rows_dyn))) =
        Num (of_int (8 * ?c))"
    using nz by (simp add: js_div_def rows_dyn_def)
  then show ?thesis using generateScale_of_int [OF b] by simp
qed

lemma dyn_returns:
  assumes "0 < canvas_height cv" and "64 * canvas_width cv \<le> 4294967295"
  shows "\<exists>s'. handleInteractionLogic_dyn b now x y cv s = Inr s'"
  by (simp add: handleInteractionLogic_dyn_def Let_def generateScale_dyn [OF assms])








lemma highlight_step_alpha:
  assumes "0 < ch_alpha ch"
  shows "ch_alpha (highlight_step now ch) =
           (if real_of_int (now - ch_time ch) > 500 then 0
            else 1 - real_of_int (now - ch_time ch) / 500)"
  using assms by (simp add: highlight_step_def highlightDuration_def Let_def)

lemma highlight_step_inert:
  "ch_alpha ch \<le> 0 \<Longrightarrow> highlight_step later ch = ch"
  by (simp add: highlight_step_def)

lemma drawCellHighlights_nth:
  assumes "i < length (cellHighlightsRef s)" and "i < n"
    and "cellHighlightsRef s ! i = Some ch"
  shows "cellHighlightsRef (drawCellHighlights n now s) ! i = Some (highlight_step now ch)"
  using assms by (simp add: drawCellHighlights_def js_set_length_def Let_def nth_append)

lemma trim_pools_kept:
  "shapesRef (trim_pools m s) = drop (length (shapesRef s) - MAX_SHAPES) (shapesRef s)"
  "particlesRef (trim_pools m s) = drop (length (particlesRef s) - m) (particlesRef s)"
  by (simp_all add: trim_pools_def Let_def slice_last_def)

lemma kept_length: "length (drop (length xs - n) xs) = min n (length xs)"
  by (auto simp add: min_def)

lemma drawCellHighlights_pools:
  "shapesRef (drawCellHighlights n now s) = shapesRef s"
  "particlesRef (drawCellHighlights n now s) = particlesRef s"
  by (simp_all add: drawCellHighlights_def Let_def)

lemma animate_dyn_result:
  assumes "animate_dyn now cv s = Inr s'"
  shows "\<exists>s1. s' = trim_pools 100 (update_particles 0.05 (update_shapes s1)) \<and>
           shapesRef s1 = shapesRef s \<and> particlesRef s1 = particlesRef s"
  using assms
  by (auto simp add: animate_dyn_def drawCellHighlights_dyn_def Let_def split: sum.splits)

lemma update_pools_proj:
  "shapesRef (update_particles g (update_shapes s)) =
     filter (\<lambda>sh. shape_life sh > 0) (map age_shape (shapesRef s))"
  "particlesRef (update_particles g (update_shapes s)) =
     filter (\<lambda>p. p_life p > 0) (map (age_particle g) (particlesRef s))"
  by (simp_all add: update_particles_def update_shapes_def)

lemma animate_dyn_returns:
  assumes "0 < canvas_height cv" and "64 * canvas_width cv \<le> 4294967295"
  shows "\<exists>s'. animate_dyn now cv s = Inr s'"
proof -
  let ?c = "\<lfloor>real (canvas_width cv) / (real (canvas_height cv) / real rows_dyn)\<rfloor>"
  have nz: "real (canvas_height cv) / real rows_dyn \<noteq> 0"
    using assms(1) by (simp add: rows_dyn_def)
  have b: "0 \<le> 8 * ?c" "8 * ?c \<le> 4294967295"
    using columns_dyn_bounds [OF assms(1)] assms(2) by linarith+
  have m: "js_mul (Num (real rows_dyn))
           (js_floor (js_div (real (canvas_width cv)) (real (canvas_height cv) / real rows_dyn))) =
        Num (of_int (8 * ?c))"
    using nz by (simp add: js_div_def rows_dyn_def)
  have "\<exists>hs. assign_length (Num (of_int (8 * ?c))) xs = Inr hs" for xs :: "CellHighlight option list"
    using b by simp
  then show ?thesis
    by (auto simp add: animate_dyn_def drawCellHighlights_dyn_def Let_def m simp del: of_int_mult
        split: sum.splits)
qed

lemma run_dyn_pointers:
  assumes "0 < canvas_height cv" and "64 * canvas_width cv \<le> 4294967295"
  shows "\<exists>s'. run_dyn (map (\<lambda>t. Pointer b t x y cv) ts) s = Inr s' \<and>
           length (shapesRef s') = length (shapesRef s) + 3 * length ts \<and>
           length (particlesRef s') = length (particlesRef s) + 2 * length ts"
proof (induction ts arbitrary: s)
  case Nil
  then show ?case by simp
next
  case (Cons t ts)
  obtain s1 where r: "handleInteractionLogic_dyn b t x y cv s = Inr s1"
    using dyn_returns [OF assms] by blast
  from Cons.IH [of s1] obtain s' where
    "run_dyn (map (\<lambda>t. Pointer b t x y cv) ts) s1 = Inr s'"
    "length (shapesRef s') = length (shapesRef s1) + 3 * length ts"
    "length (particlesRef s') = length (particlesRef s1) + 2 * length ts"
    by blast
  then show ?case using dyn_pools [OF r] by (simp add: r)
qed

lemma run_dyn_append:
  "run_dyn (xs @ ys) s = (case run_dyn xs s of Inl e \<Rightarrow> Inl e | Inr s' \<Rightarrow> run_dyn ys s')"
proof (induction xs arbitrary: s)
  case Nil
  then show ?case by simp
next
  case (Cons e xs)
  then show ?case by (cases e) (simp_all split: sum.splits)
qed

lemma age_shape_life: "shape_life (age_shape sh) = shape_life sh - 0.01"
  by (simp add: age_shape_def Let_def)

lemma createShape_life: "shape_life (createShape b k x y) = 1"
  by (simp add: createShape_def)

lemma trim_pools_shapes:
  "shapesRef (trim_pools m s) =
     (if length (shapesRef s) > 100 then slice_last 100 (shapesRef s) else shapesRef s)"
  by (simp add: trim_pools_def Let_def MAX_SHAPES_def)

lemma set_slice_last: "set (slice_last n xs) \<subseteq> set xs"
  by (simp add: slice_last_def set_drop_subset)

lemma length_slice_last: "length (slice_last n xs) = min n (length xs)"
  by (simp add: slice_last_def)

lemma frame_keeps_living_shapes:
  assumes r: "animate_dyn now cv s = Inr s'"
    and alive: "\<forall>sh\<in>set (shapesRef s). c + 1 / 100 < shape_life sh" and c: "0 \<le> c"
  shows "length (shapesRef s') = min 100 (length (shapesRef s))"
    and "\<forall>sh\<in>set (shapesRef s'). c < shape_life sh"
proof -
  obtain s1 where s1: "s' = trim_pools 100 (update_particles 0.05 (update_shapes s1))"
    "shapesRef s1 = shapesRef s"
    using animate_dyn_result [OF r] by blast
  let ?aged = "map age_shape (shapesRef s)"
  have all: "\<forall>sh\<in>set ?aged. c < shape_life sh"
    using alive by (auto simp add: age_shape_life)
  then have "filter (\<lambda>sh. shape_life sh > 0) ?aged = ?aged"
    using c by (intro filter_True) force
  then have up: "shapesRef (update_particles 0.05 (update_shapes s1)) = ?aged"
    by (simp add: update_pools_proj s1(2))
  show "length (shapesRef s') = min 100 (length (shapesRef s))"
    unfolding s1(1) trim_pools_shapes up by (simp add: length_slice_last)
  show "\<forall>sh\<in>set (shapesRef s'). c < shape_life sh"
    unfolding s1(1) trim_pools_shapes up using all set_slice_last [of 100 ?aged] by auto
qed

lemma run_dyn_alternating:
  assumes ok: "0 < canvas_height cv" "64 * canvas_width cv \<le> 4294967295"
    and alive: "\<forall>sh\<in>set (shapesRef s). real (length ts) / 100 < shape_life sh"
    and len: "length ts < 100"
    and cap: "length (shapesRef s) \<le> 100"
  shows "\<exists>s'. run_dyn (concat (map (\<lambda>t. [Pointer b t x y cv, Frame (t + 16) cv]) ts)) s = Inr s' \<and>
           length (shapesRef s') = min 100 (length (shapesRef s) + 3 * length ts)"
  using alive len cap
proof (induction ts arbitrary: s)
  case Nil
  then show ?case by simp
next
  case (Cons t ts)
  obtain s1 where r1: "handleInteractionLogic_dyn b t x y cv s = Inr s1"
    using dyn_returns [OF ok] by blast
  obtain s2 where r2: "animate_dyn (t + 16) cv s1 = Inr s2"
    using animate_dyn_returns [OF ok] by blast
  have l: "real (length ts) / 100 + 1 / 100 < 1" "0 \<le> real (length ts) / 100"
    using Cons.prems(2) by simp_all
  have a1: "\<forall>sh\<in>set (shapesRef s1). real (length ts) / 100 + 1 / 100 < shape_life sh"
    using Cons.prems(1) l(1) unfolding dyn_pools(1) [OF r1]
    by (auto simp add: createShape_life add_divide_distrib)
  note f = frame_keeps_living_shapes [OF r2 a1 l(2)]
  have "length ts < 100" using Cons.prems(2) by simp
  moreover have "length (shapesRef s2) \<le> 100" using f(1) by simp
  ultimately obtain s' where
    s': "run_dyn (concat (map (\<lambda>t. [Pointer b t x y cv, Frame (t + 16) cv]) ts)) s2 = Inr s'"
        "length (shapesRef s') = min 100 (length (shapesRef s2) + 3 * length ts)"
    using Cons.IH [OF f(2)] by blast
  have "length (shapesRef s1) = length (shapesRef s) + 3"
    using dyn_pools(1) [OF r1] by simp
  then have "length (shapesRef s') = min 100 (length (shapesRef s) + 3 * length (t # ts))"
    using s'(2) f(1) by simp
  then show ?case using s'(1) by (simp add: r1 r2)
qed

lemma animate_fixed_pools:
  "shapesRef (animate_fixed now cv s) =
     drop (length (filter (\<lambda>sh. shape_life sh > 0) (map age_shape (shapesRef s))) - MAX_SHAPES)
       (filter (\<lambda>sh. shape_life sh > 0) (map age_shape (shapesRef s)))"
  "particlesRef (animate_fixed now cv s) =
     drop (length (filter (\<lambda>p. p_life p > 0) (map (age_particle 0.05) (particlesRef s))) - 100)
       (filter (\<lambda>p. p_life p > 0) (map (age_particle 0.05) (particlesRef s)))"
  by (simp_all add: animate_fixed_def Let_def trim_pools_kept update_pools_proj
      drawCellHighlights_pools)

lemma animate_layout_pools:
  "shapesRef (animate_layout now cv s) =
     drop (length (filter (\<lambda>sh. shape_life sh > 0) (map age_shape (shapesRef s))) - MAX_SHAPES)
       (filter (\<lambda>sh. shape_life sh > 0) (map age_shape (shapesRef s)))"
  "particlesRef (animate_layout now cv s) =
     drop (length (filter (\<lambda>p. p_life p > 0) (map (age_particle 0.05) (particlesRef s))) - 100)
       (filter (\<lambda>p. p_life p > 0) (map (age_particle 0.05) (particlesRef s)))"
  by (simp_all add: animate_layout_def Let_def trim_pools_kept update_pools_proj
      drawCellHighlights_pools)

lemma animate_const_pools:
  "shapesRef (animate_const s) =
     drop (length (filter (\<lambda>sh. shape_life sh > 0) (map age_shape (shapesRef s))) - MAX_SHAPES)
       (filter (\<lambda>sh. shape_life sh > 0) (map age_shape (shapesRef s)))"
  "particlesRef (animate_const s) =
     drop (length (filter (\<lambda>p. p_life p > 0) (map (age_particle 0.2) (particlesRef s))) - 200)
       (filter (\<lambda>p. p_life p > 0) (map (age_particle 0.2) (particlesRef s)))"
  by (simp_all add: animate_const_def trim_pools_kept update_pools_proj)

lemma animate_dyn_pools:
  assumes "animate_dyn now cv s = Inr s'"
  shows "shapesRef s' =
     drop (length (filter (\<lambda>sh. shape_life sh > 0) (map age_shape (shapesRef s))) - MAX_SHAPES)
       (filter (\<lambda>sh. shape_life sh > 0) (map age_shape (shapesRef s)))"
  and "particlesRef s' =
     drop (length (filter (\<lambda>p. p_life p > 0) (map (age_particle 0.05) (particlesRef s))) - 100)
       (filter (\<lambda>p. p_life p > 0) (map (age_particle 0.05) (particlesRef s)))"
proof -
  obtain s1 where s1: "s' = trim_pools 100 (update_particles 0.05 (update_shapes s1))"
    "shapesRef s1 = shapesRef s" "particlesRef s1 = particlesRef s"
    using animate_dyn_result [OF assms] by blast
  show "shapesRef s' =
     drop (length (filter (\<lambda>sh. shape_life sh > 0) (map age_shape (shapesRef s))) - MAX_SHAPES)
       (filter (\<lambda>sh. shape_life sh > 0) (map age_shape (shapesRef s)))"
    by (simp add: s1 trim_pools_kept update_pools_proj)
  show "particlesRef s' =
     drop (length (filter (\<lambda>p. p_life p > 0) (map (age_particle 0.05) (particlesRef s))) - 100)
       (filter (\<lambda>p. p_life p > 0) (map (age_particle 0.05) (particlesRef s)))"
    by (simp add: s1 trim_pools_kept update_pools_proj)
qed

lemma age_particle_life: "p_life (age_particle g p) = p_life p - 0.02"
  by (simp add: age_particle_def Let_def)

lemma createParticle_life: "p_life (createParticle b k x y) = 1"
  by (simp add: createParticle_def)

lemma run_dyn_pointers_fresh:
  assumes "0 < canvas_height cv" and "64 * canvas_width cv \<le> 4294967295"
    and "\<forall>sh\<in>set (shapesRef s). shape_life sh = 1"
    and "\<forall>p\<in>set (particlesRef s). p_life p = 1"
    and "run_dyn (map (\<lambda>t. Pointer b t x y cv) ts) s = Inr s'"
  shows "(\<forall>sh\<in>set (shapesRef s'). shape_life sh = 1) \<and>
         (\<forall>p\<in>set (particlesRef s'). p_life p = 1)"
  using assms(3-5)
proof (induction ts arbitrary: s)
  case Nil
  then show ?case by simp
next
  case (Cons t ts)
  obtain s1 where r: "handleInteractionLogic_dyn b t x y cv s = Inr s1"
    using dyn_returns [OF assms(1,2)] by blast
  have "\<forall>sh\<in>set (shapesRef s1). shape_life sh = 1" "\<forall>p\<in>set (particlesRef s1). p_life p = 1"
    using Cons.prems(1,2) unfolding dyn_pools [OF r]
    by (auto simp add: createShape_life createParticle_life)
  moreover have "run_dyn (map (\<lambda>t. Pointer b t x y cv) ts) s1 = Inr s'"
    using Cons.prems(3) by (simp add: r)
  ultimately show ?case by (rule Cons.IH)
qed










lemma cell_of_range:
  assumes "js_ge (cell_of v c) (Num a)" and "js_le (cell_of v c) (Num b)"
  obtains k :: int where "cell_of v c = Num (of_int k)" and "a \<le> of_int k" and "of_int k \<le> b"
proof (cases "c = 0")
  case True
  with assms show ?thesis
    by (auto simp add: cell_of_zero js_ge_def js_le_def split: if_splits)
next
  case False
  then have "cell_of v c = Num (of_int \<lfloor>v / c\<rfloor>)" by (rule cell_of_nonzero)
  with assms that [of "\<lfloor>v / c\<rfloor>"] show ?thesis
    by (auto simp add: js_ge_def js_le_def)
qed

lemma js_get_js_set:
  assumes "js_index k = Some n"
  shows "js_get (js_set xs k v) k = Some (Some v)"
  using assms by (auto simp add: js_get_def js_set_def nth_append)

lemma js_index_of_int: "0 \<le> k \<Longrightarrow> js_index (Num (of_int k)) = Some (nat k)"
  by simp

lemma fixed_note:
  fixes b :: browser and now :: int and s :: state
  assumes "note_cell_fixed x y cv"
  defines "s' \<equiv> handleInteractionLogic_fixed b now x y cv s"
  defines "cellIndex \<equiv> js_add (js_mul (cell_of y (real (canvas_height cv) / real rows))
                            (Num (real columns_fixed)))
                          (cell_of x (real (canvas_height cv) / real rows))"
  shows "cellHighlightsRef s' = js_set (cellHighlightsRef s) cellIndex (new_highlight now)"
    and "js_get (cellHighlightsRef s') cellIndex = Some (Some (new_highlight now))"
    and "\<not> now - lastSoundTimeRef s > 100 \<Longrightarrow> calls s' = calls s \<and> effects s' = effects s"
proof -
  let ?cs = "real (canvas_height cv) / real rows"
  from assms(1) have g: "js_ge (cell_of x ?cs) (Num 1)" "js_le (cell_of x ?cs) (Num 14)"
    "js_ge (cell_of y ?cs) (Num 1)" "js_le (cell_of y ?cs) (Num 5)"
    by (simp_all add: note_cell_fixed_def Let_def)
  obtain i :: int where i: "cell_of x ?cs = Num (of_int i)" "1 \<le> i" "i \<le> 14"
    using cell_of_range [OF g(1,2)] by (metis of_int_1 of_int_le_iff of_int_numeral)
  obtain j :: int where j: "cell_of y ?cs = Num (of_int j)" "1 \<le> j" "j \<le> 5"
    using cell_of_range [OF g(3,4)] by (metis of_int_1 of_int_le_iff of_int_numeral)
  have ne: "real_of_int j \<noteq> 0" "real_of_int j \<noteq> 6" "real_of_int i \<noteq> 0" "real_of_int i \<noteq> 15"
    using i j by auto
  have c7: "cell_of x (real (canvas_height cv) / 7) = Num (of_int i)"
    "cell_of y (real (canvas_height cv) / 7) = Num (of_int j)"
    using i(1) j(1) by (simp_all add: rows_def)
  show hl: "cellHighlightsRef s' = js_set (cellHighlightsRef s) cellIndex (new_highlight now)"
    unfolding s'_def cellIndex_def using ne i(2,3) j(2,3)
    by (simp add: handleInteractionLogic_fixed_def Let_def push_shape_funpow
        push_particle_funpow playSound_def c7 rows_def columns_fixed_def js_ge_def js_le_def)
  have "cellIndex = Num (of_int (j * 16 + i))"
    unfolding cellIndex_def by (simp add: i(1) j(1) columns_fixed_def)
  moreover have "0 \<le> j * 16 + i" using i j by simp
  ultimately have "js_index cellIndex = Some (nat (j * 16 + i))"
    using js_index_of_int by metis
  then show "js_get (cellHighlightsRef s') cellIndex = Some (Some (new_highlight now))"
    unfolding hl by (rule js_get_js_set)
  show "\<not> now - lastSoundTimeRef s > 100 \<Longrightarrow> calls s' = calls s \<and> effects s' = effects s"
    unfolding s'_def
    by (simp add: handleInteractionLogic_fixed_def Let_def push_shape_funpow
        push_particle_funpow)
qed

lemma fixed_pools:
  "shapesRef (handleInteractionLogic_fixed b now x y cv s) =
     shapesRef s @ map (\<lambda>i. createShape b (randomCalls s + 5 * i) x y) [0..<3]"
  "particlesRef (handleInteractionLogic_fixed b now x y cv s) =
     particlesRef s @ map (\<lambda>i. createParticle b (randomCalls s + 15 + 4 * i) x y) [0..<2]"
  by (simp_all add: handleInteractionLogic_fixed_def Let_def push_shape_funpow
        push_particle_funpow playSound_def playDrum_def)

lemma in_grid_dyn_height: "in_grid_dyn x y cv \<Longrightarrow> 0 < canvas_height cv"
  by (rule ccontr)
    (auto simp add: in_grid_dyn_def Let_def cell_of_zero js_div_def js_ge_def js_le_def
      split: if_splits)

lemma generateScale_Inr_length:
  assumes "generateScale (Num (of_int k)) = Inr sc" and "0 < k"
  shows "length sc = nat k"
  using assms by (auto simp add: generateScale_def array_from_def split: if_splits)

lemma dyn_Inr_scale:
  assumes "handleInteractionLogic_dyn b now x y cv s = Inr d"
  shows "\<exists>sc. generateScale (js_mul (Num 8)
            (js_floor (js_div (real (canvas_width cv)) (real (canvas_height cv) / 8)))) = Inr sc"
  using assms
  by (auto simp add: handleInteractionLogic_dyn_def Let_def rows_dyn_def split: sum.splits)

lemma dyn_note:
  fixes b :: browser and now :: int and s :: state
  assumes r: "handleInteractionLogic_dyn b now x y cv s = Inr d" and g: "in_grid_dyn x y cv"
  defines "cs \<equiv> real (canvas_height cv) / real rows_dyn"
  defines "cellIndex \<equiv> js_add (js_mul (cell_of y cs) (js_floor (js_div (real (canvas_width cv)) cs)))
                          (cell_of x cs)"
  shows "cellHighlightsRef d = js_set (cellHighlightsRef s) cellIndex (new_highlight now)"
    and "js_get (cellHighlightsRef d) cellIndex = Some (Some (new_highlight now))"
    and "\<not> now - lastSoundTimeRef s > 100 \<Longrightarrow> calls d = calls s \<and> effects d = effects s"
proof -
  let ?cs = "real (canvas_height cv) / 8"
  define c where "c = \<lfloor>real (canvas_width cv) / ?cs\<rfloor>"
  define i where "i = \<lfloor>x / ?cs\<rfloor>"
  define j where "j = \<lfloor>y / ?cs\<rfloor>"
  have cs8: "cs = ?cs" by (simp add: cs_def rows_dyn_def)
  have nz: "?cs \<noteq> 0"
    using in_grid_dyn_height [OF g] by simp
  have cols: "js_floor (js_div (real (canvas_width cv)) ?cs) = Num (of_int c)"
    using nz unfolding c_def js_div_def by simp
  have cx: "cell_of x ?cs = Num (of_int i)" and cy: "cell_of y ?cs = Num (of_int j)"
    unfolding i_def j_def using nz by (rule cell_of_nonzero)+
  from g have b: "0 \<le> i" "i < c" "0 \<le> j" "j < 8"
    unfolding in_grid_dyn_def Let_def rows_dyn_def
    by (auto simp add: cols cx cy js_ge_def js_le_def)
  from dyn_Inr_scale [OF r] obtain sc where
    gs0: "generateScale (js_mul (Num 8) (Num (of_int c))) = Inr sc"
    unfolding cols by blast
  then have gs: "generateScale (Num (8 * real_of_int c)) = Inr sc" by simp
  have "generateScale (Num (of_int (8 * c))) = Inr sc" using gs by simp
  then have len: "length sc = nat (8 * c)"
    using b by (intro generateScale_Inr_length) simp_all
  have "j * c \<le> 7 * c" using b by (intro mult_right_mono) simp_all
  then have lt: "j * c + i < 8 * c" using b by linarith
  have "real_of_int (j * c + i) < real_of_int (8 * c)" using lt by (simp only: of_int_less_iff)
  moreover have "real (length sc) = real_of_int (8 * c)" using len b by simp
  ultimately have lt': "real_of_int j * real_of_int c + real_of_int i < real (length sc)"
    by simp
  have idx: "cellIndex = Num (of_int (j * c + i))"
    unfolding cellIndex_def cs8 by (simp add: cols cx cy)
  from r show hl: "cellHighlightsRef d = js_set (cellHighlightsRef s) cellIndex (new_highlight now)"
    unfolding idx using b lt'
    by (auto simp add: handleInteractionLogic_dyn_def Let_def rows_dyn_def cols cx cy gs
        push_shape_funpow push_particle_funpow playSound_def js_ge_def js_le_def
        split: if_splits)
  have "0 \<le> j * c + i" using b by simp
  then have "js_index cellIndex = Some (nat (j * c + i))"
    unfolding idx by (rule js_index_of_int)
  then show "js_get (cellHighlightsRef d) cellIndex = Some (Some (new_highlight now))"
    unfolding hl by (rule js_get_js_set)
  from r show "\<not> now - lastSoundTimeRef s > 100 \<Longrightarrow> calls d = calls s \<and> effects d = effects s"
    unfolding handleInteractionLogic_dyn_def Let_def
    by (auto simp add: push_shape_funpow push_particle_funpow split: sum.splits if_splits)
qed







lemma note_cell_150: "note_cell_fixed 150 150 demo_canvas"
  by (simp add: note_cell_fixed_def demo_canvas_def rows_def cell_of_def js_div_def js_ge_def
      js_le_def)

lemma in_grid_150: "in_grid_dyn 150 150 demo_canvas"
  by (simp add: in_grid_dyn_def demo_canvas_def rows_dyn_def cell_of_def js_div_def js_ge_def
      js_le_def Let_def)

lemma updateLayoutAndScale_result:
  "updateLayoutAndScale b s =
     Inr (s\<lparr>columns := (if innerHeight b > innerWidth b then 9 else 16),
            noteColsRef := (if innerHeight b > innerWidth b then 7 else 14),
            noteRowsRef := 5,
            totalNotesRef := (if innerHeight b > innerWidth b then 35 else 70),
            scaleRef := map semitone [0..<(if innerHeight b > innerWidth b then 35 else 70)]\<rparr>)"
proof -
  have "generateScale (Num (real (35::nat))) = Inr (map semitone [0..<35])"
    "generateScale (Num (real (70::nat))) = Inr (map semitone [0..<70])"
    by (rule generateScale_nat, simp)+
  then show ?thesis
    by (simp add: updateLayoutAndScale_def getLayoutParams_def orientationIsPortrait_def Let_def)
qed

lemma updateLayoutAndScale_consistent:
  "\<exists>s'. updateLayoutAndScale b s = Inr s' \<and> layout_consistent s'"
  by (simp add: updateLayoutAndScale_result layout_consistent_def)

lemma layout_fields_unchanged:
  "scaleRef (handleInteractionLogic_layout b now x y cv s) = scaleRef s"
  "columns (handleInteractionLogic_layout b now x y cv s) = columns s"
  "noteRowsRef (handleInteractionLogic_layout b now x y cv s) = noteRowsRef s"
  "noteColsRef (handleInteractionLogic_layout b now x y cv s) = noteColsRef s"
  "totalNotesRef (handleInteractionLogic_layout b now x y cv s) = totalNotesRef s"
  by (simp_all add: handleInteractionLogic_layout_def Let_def push_shape_funpow
      push_particle_funpow playSound_def playDrum_def)

lemma animate_layout_fields_unchanged:
  "scaleRef (animate_layout now cv s) = scaleRef s"
  "columns (animate_layout now cv s) = columns s"
  "noteRowsRef (animate_layout now cv s) = noteRowsRef s"
  "noteColsRef (animate_layout now cv s) = noteColsRef s"
  "totalNotesRef (animate_layout now cv s) = totalNotesRef s"
  by (simp_all add: animate_layout_def Let_def drawCellHighlights_def update_shapes_def
      update_particles_def trim_pools_def)

lemma run_layout_consistent:
  "layout_consistent s \<Longrightarrow> \<exists>s'. run_layout evs s = Inr s' \<and> layout_consistent s'"
proof (induction evs arbitrary: s)
  case Nil
  then show ?case by simp
next
  case (Cons e evs)
  show ?case
  proof (cases e)
    case (Resize b)
    obtain s1 where s1: "updateLayoutAndScale b s = Inr s1" "layout_consistent s1"
      using updateLayoutAndScale_consistent by blast
    then show ?thesis using Cons.IH [OF s1(2)] Resize by simp
  next
    case (Pointer b now x y cv)
    have "layout_consistent (handleInteractionLogic_layout b now x y cv s)"
      using Cons.prems by (simp add: layout_consistent_def layout_fields_unchanged)
    then show ?thesis using Cons.IH Pointer by simp
  next
    case (Frame now cv)
    have "layout_consistent (animate_layout now cv s)"
      using Cons.prems by (simp add: layout_consistent_def animate_layout_fields_unchanged)
    then show ?thesis using Cons.IH Frame by simp
  qed
qed

lemma js_get_fixed_0: "js_get generateScale_fixed (Num 0) = Some (130.81)"
  by (simp add: js_get_def generateScale_fixed_def totalNotes_def noteRows_def noteCols_def
      semitone_def baseFreq_def)

lemma volume_150_700: "volume_of 150 \<lparr>canvas_width = w, canvas_height = 700\<rparr> = Num (113 / 140)"
  by (simp add: volume_of_def js_div_def js_sub_def)

text \<open>
  C2. In the fixed 7 by 16 variant, on a canvas 1600 wide and 700 high, the handler sets
  the cell size to 100; an interaction at (150, 150) maps to column 1, row 1, inside the
  note region; the note index is 0 and the frequency read from the mounted page's scale
  is 130.81. That frequency is what the interaction plays: the handler's only call is
  \<open>playSound\<close> with 130.81, made when the sound gate is open, and where audio is available
  the call schedules that tone.
\<close>

theorem click_150_150_plays_base_pitch:
  assumes "scaleRef s = generateScale_fixed"
  shows "let cv = \<lparr>canvas_width = 1600, canvas_height = 700\<rparr>;
             s' = handleInteractionLogic_fixed b now 150 150 cv s;
             cellX = cell_of 150 (cellSizeRef s');
             cellY = cell_of 150 (cellSizeRef s');
             noteIndex = js_add (js_mul (js_sub cellY (Num 1)) (Num (real noteCols)))
                           (js_sub cellX (Num 1))
         in cellSizeRef s' = 100 \<and> cellX = Num 1 \<and> cellY = Num 1 \<and>
            js_ge cellX (Num 1) \<and> js_le cellX (Num 14) \<and>
            js_ge cellY (Num 1) \<and> js_le cellY (Num 5) \<and>
            noteIndex = Num 0 \<and>
            js_get (scaleRef s') noteIndex = Some 130.81 \<and>
            calls s' = calls s @
              (if now - lastSoundTimeRef s > 100
               then [PlaySound (Some 130.81) (Num (113 / 140))] else []) \<and>
            (now - lastSoundTimeRef s > 100 \<and> isSecureContext b \<and> hasAudioContext b \<longrightarrow>
               effects s' = effects s @ [Oscillator Triangle (Some 130.81) (Num (113 / 140)) 0.5])"
  using assms
  by (simp add: handleInteractionLogic_fixed_def Let_def push_shape_funpow push_particle_funpow
      playSound_def cell_of_def js_div_def rows_def columns_fixed_def noteCols_def
      js_ge_def js_le_def js_sub_def js_get_fixed_0 volume_150_700)

theorem click_150_150_plays_base_pitch_witness:
  "calls (handleInteractionLogic_fixed demo_browser 1000 150 150 demo_canvas
            (mount_fixed initial_state)) = [PlaySound (Some 130.81) (Num (113 / 140))] \<and>
   effects (handleInteractionLogic_fixed demo_browser 1000 150 150 demo_canvas
            (mount_fixed initial_state)) = [Oscillator Triangle (Some 130.81) (Num (113 / 140)) 0.5]"
  using click_150_150_plays_base_pitch [of "mount_fixed initial_state" demo_browser 1000]
  by (simp add: mount_fixed_def initial_state_def demo_browser_def demo_canvas_def Let_def)

text \<open>
  C3. In the variants with drum columns (the fixed one and the one that chooses its
  columns by orientation), an interaction whose cell is in column 0 or in the last column
  never calls \<open>playSound\<close>: the handler makes no call, or one call of \<open>playDrum\<close>. An
  interaction at (0, 150) on a canvas 700 high is in column 0, row 1, and calls
  \<open>playDrum\<close> when more than 100 ms have passed since the last sound.
\<close>

theorem drum_column_never_plays_note:
  "(let cellX = cell_of x (real (canvas_height cv) / real rows) in
    js_eq cellX (Num 0) \<or> js_eq cellX (Num (real columns_fixed - 1)) \<longrightarrow>
      (let s' = handleInteractionLogic_fixed b now x y cv s in
       calls s' = calls s \<or> calls s' = calls s @ [PlayDrum (volume_of y cv)])) \<and>
   (let cellX = cell_of x (real (canvas_height cv) / real rows) in
    js_eq cellX (Num 0) \<or> js_eq cellX (Num (real (columns s) - 1)) \<longrightarrow>
      (let s' = handleInteractionLogic_layout b now x y cv s in
       calls s' = calls s \<or> calls s' = calls s @ [PlayDrum (volume_of y cv)])) \<and>
   (let cv0 = \<lparr>canvas_width = w, canvas_height = 700\<rparr>;
        s' = handleInteractionLogic_fixed b now 0 150 cv0 s;
        s'' = handleInteractionLogic_layout b now 0 150 cv0 s in
    cell_of 0 (cellSizeRef s') = Num 0 \<and> cell_of 150 (cellSizeRef s') = Num 1 \<and>
    (now - lastSoundTimeRef s > 100 \<longrightarrow>
       calls s' = calls s @ [PlayDrum (Num (113 / 140))] \<and>
       calls s'' = calls s @ [PlayDrum (Num (113 / 140))]))"
proof (intro conjI)
  show "let cellX = cell_of x (real (canvas_height cv) / real rows) in
    js_eq cellX (Num 0) \<or> js_eq cellX (Num (real columns_fixed - 1)) \<longrightarrow>
      (let s' = handleInteractionLogic_fixed b now x y cv s in
       calls s' = calls s \<or> calls s' = calls s @ [PlayDrum (volume_of y cv)])"
    by (simp add: fixed_calls Let_def)
  show "let cellX = cell_of x (real (canvas_height cv) / real rows) in
    js_eq cellX (Num 0) \<or> js_eq cellX (Num (real (columns s) - 1)) \<longrightarrow>
      (let s' = handleInteractionLogic_layout b now x y cv s in
       calls s' = calls s \<or> calls s' = calls s @ [PlayDrum (volume_of y cv)])"
    by (simp add: layout_calls Let_def)
  have c0: "cell_of 0 100 = Num 0" "cell_of 150 100 = Num 1"
    by (simp_all add: cell_of_def js_div_def)
  have cs: "cellSizeRef (handleInteractionLogic_fixed b now 0 150 \<lparr>canvas_width = w, canvas_height = 700\<rparr> s) = 700 / real rows"
    by (simp add: handleInteractionLogic_fixed_def Let_def push_shape_funpow push_particle_funpow
      playDrum_def playSound_def)
  show "let cv0 = \<lparr>canvas_width = w, canvas_height = 700\<rparr>;
        s' = handleInteractionLogic_fixed b now 0 150 cv0 s;
        s'' = handleInteractionLogic_layout b now 0 150 cv0 s in
    cell_of 0 (cellSizeRef s') = Num 0 \<and> cell_of 150 (cellSizeRef s') = Num 1 \<and>
    (now - lastSoundTimeRef s > 100 \<longrightarrow>
       calls s' = calls s @ [PlayDrum (Num (113 / 140))] \<and>
       calls s'' = calls s @ [PlayDrum (Num (113 / 140))])"
    unfolding Let_def cs by (simp add: c0 fixed_calls layout_calls volume_150_700 rows_def Let_def)
qed


theorem drum_column_never_plays_note_witness:
  "js_eq (cell_of 0 (real (canvas_height demo_canvas) / real rows)) (Num 0) \<and>
   calls (handleInteractionLogic_fixed demo_browser 1000 0 150 demo_canvas
            (mount_fixed initial_state)) = [PlayDrum (Num (113 / 140))] \<and>
   calls (handleInteractionLogic_layout demo_browser 1000 0 150 demo_canvas
            (mount_fixed initial_state)) = [PlayDrum (Num (113 / 140))]"
  using drum_column_never_plays_note
    [of 0 demo_canvas demo_browser 1000 150 "mount_fixed initial_state" 1600]
  by (simp add: mount_fixed_def initial_state_def demo_canvas_def Let_def rows_def
      cell_of_def js_div_def)




text \<open>
  C5 (as stated, refuted). Under sustained pointer movement on the 8-row variant the
  frames trim the shape pool to 100; the next interaction appends three shapes, and
  until the following frame the pool holds 103 entries, more than \<open>MAX_SHAPES\<close>.
\<close>

theorem interaction_after_trim_exceeds_the_maximum:
  "MAX_SHAPES = 100 \<and>
   \<not> isl (run_dyn busy_run initial_state) \<and>
   length (shapesRef (projr (run_dyn busy_run initial_state))) = 103"
proof -
  have ok: "0 < canvas_height demo_canvas" "64 * canvas_width demo_canvas \<le> 4294967295"
    by (simp_all add: demo_canvas_def)
  have e: "shapesRef initial_state = []" by (simp add: initial_state_def)
  obtain s1 where s1:
    "run_dyn (concat (map (\<lambda>t. [Pointer demo_browser t 150 150 demo_canvas,
                                 Frame (t + 16) demo_canvas])
               (map (\<lambda>k. 1000 + 33 * int k) [0..<34]))) initial_state = Inr s1"
    "length (shapesRef s1) = 100"
    using run_dyn_alternating [OF ok, of initial_state "map (\<lambda>k. 1000 + 33 * int k) [0..<34]"
        demo_browser 150 150]
    by (auto simp add: e)
  obtain s2 where s2: "handleInteractionLogic_dyn demo_browser 2122 150 150 demo_canvas s1 = Inr s2"
    using dyn_returns [OF ok] by blast
  have "run_dyn busy_run initial_state = Inr s2"
    unfolding busy_run_def run_dyn_append s1(1) by (simp add: s2)
  moreover have "length (shapesRef s2) = 103"
    using dyn_pools(1) [OF s2] s1(2) by simp
  ultimately show ?thesis by (simp add: MAX_SHAPES_def)
qed

text \<open>
  C5 (amended). The pools are trimmed by the render loop, not by the spawn. A frame ages
  every shape and particle, drops the dead ones, and then keeps of the survivors exactly
  the newest \<open>min(MAX, n)\<close>, in their order, discarding the oldest: \<open>MAX_SHAPES\<close> = 100
  for shapes, 100 for particles (200 in the 150-pixel variant). So after every frame,
  whatever number of spawn events came before it, the shape pool holds
  \<open>min(100, n)\<close> entries, where \<open>n\<close> is the number of survivors. An interaction appends
  exactly three shapes and two particles and trims nothing. A frame of the 8-row variant
  completes on any canvas of positive height whose width is below \<open>2^26\<close>.
\<close>

theorem pools_bounded_after_each_frame:
  "(let shapes = filter (\<lambda>sh. shape_life sh > 0) (map age_shape (shapesRef s));
        particles = filter (\<lambda>p. p_life p > 0) (map (age_particle 0.05) (particlesRef s));
        particles_const = filter (\<lambda>p. p_life p > 0) (map (age_particle 0.2) (particlesRef s))
    in
    (animate_dyn now cv s = Inr s' \<longrightarrow>
       shapesRef s' = drop (length shapes - MAX_SHAPES) shapes \<and>
       particlesRef s' = drop (length particles - 100) particles \<and>
       length (shapesRef s') = min MAX_SHAPES (length shapes) \<and>
       length (particlesRef s') = min 100 (length particles)) \<and>
    (0 < canvas_height cv \<and> 64 * canvas_width cv \<le> 4294967295 \<longrightarrow>
       (\<exists>s1. animate_dyn now cv s = Inr s1)) \<and>
    shapesRef (animate_const s) = drop (length shapes - MAX_SHAPES) shapes \<and>
    particlesRef (animate_const s) = drop (length particles_const - 200) particles_const \<and>
    length (shapesRef (animate_const s)) = min MAX_SHAPES (length shapes) \<and>
    length (particlesRef (animate_const s)) = min 200 (length particles_const) \<and>
    shapesRef (animate_fixed now cv s) = drop (length shapes - MAX_SHAPES) shapes \<and>
    particlesRef (animate_fixed now cv s) = drop (length particles - 100) particles \<and>
    length (shapesRef (animate_fixed now cv s)) = min MAX_SHAPES (length shapes) \<and>
    length (particlesRef (animate_fixed now cv s)) = min 100 (length particles) \<and>
    shapesRef (animate_layout now cv s) = drop (length shapes - MAX_SHAPES) shapes \<and>
    particlesRef (animate_layout now cv s) = drop (length particles - 100) particles \<and>
    length (shapesRef (animate_layout now cv s)) = min MAX_SHAPES (length shapes) \<and>
    length (particlesRef (animate_layout now cv s)) = min 100 (length particles)) \<and>
   MAX_SHAPES = 100 \<and>
   (handleInteractionLogic_dyn b t x y cv s = Inr s'' \<longrightarrow>
      length (shapesRef s'') = length (shapesRef s) + 3 \<and>
      length (particlesRef s'') = length (particlesRef s) + 2)"
proof -
  have a: "animate_dyn now cv s = Inr s' \<longrightarrow>
       shapesRef s' = drop (length (filter (\<lambda>sh. shape_life sh > 0) (map age_shape (shapesRef s))) - MAX_SHAPES)
         (filter (\<lambda>sh. shape_life sh > 0) (map age_shape (shapesRef s))) \<and>
       particlesRef s' = drop (length (filter (\<lambda>p. p_life p > 0) (map (age_particle 0.05) (particlesRef s))) - 100)
         (filter (\<lambda>p. p_life p > 0) (map (age_particle 0.05) (particlesRef s))) \<and>
       length (shapesRef s') =
         min MAX_SHAPES (length (filter (\<lambda>sh. shape_life sh > 0) (map age_shape (shapesRef s)))) \<and>
       length (particlesRef s') =
         min 100 (length (filter (\<lambda>p. p_life p > 0) (map (age_particle 0.05) (particlesRef s))))"
  proof
    assume r: "animate_dyn now cv s = Inr s'"
    show "shapesRef s' = drop (length (filter (\<lambda>sh. shape_life sh > 0) (map age_shape (shapesRef s))) - MAX_SHAPES)
         (filter (\<lambda>sh. shape_life sh > 0) (map age_shape (shapesRef s))) \<and>
       particlesRef s' = drop (length (filter (\<lambda>p. p_life p > 0) (map (age_particle 0.05) (particlesRef s))) - 100)
         (filter (\<lambda>p. p_life p > 0) (map (age_particle 0.05) (particlesRef s))) \<and>
       length (shapesRef s') =
         min MAX_SHAPES (length (filter (\<lambda>sh. shape_life sh > 0) (map age_shape (shapesRef s)))) \<and>
       length (particlesRef s') =
         min 100 (length (filter (\<lambda>p. p_life p > 0) (map (age_particle 0.05) (particlesRef s))))"
      by (simp only: animate_dyn_pools [OF r] kept_length simp_thms)
  qed
  have b: "0 < canvas_height cv \<and> 64 * canvas_width cv \<le> 4294967295 \<longrightarrow>
       (\<exists>s1. animate_dyn now cv s = Inr s1)"
    using animate_dyn_returns by blast
  have c: "handleInteractionLogic_dyn b t x y cv s = Inr s'' \<longrightarrow>
      length (shapesRef s'') = length (shapesRef s) + 3 \<and>
      length (particlesRef s'') = length (particlesRef s) + 2"
    using dyn_pools by simp
  have d: "MAX_SHAPES = 100" by (simp add: MAX_SHAPES_def)
  have e: "shapesRef (animate_const s) = drop (length (filter (\<lambda>sh. shape_life sh > 0) (map age_shape (shapesRef s))) - MAX_SHAPES)
         (filter (\<lambda>sh. shape_life sh > 0) (map age_shape (shapesRef s))) \<and>
    particlesRef (animate_const s) = drop (length (filter (\<lambda>p. p_life p > 0) (map (age_particle 0.2) (particlesRef s))) - 200)
         (filter (\<lambda>p. p_life p > 0) (map (age_particle 0.2) (particlesRef s))) \<and>
    length (shapesRef (animate_const s)) =
      min MAX_SHAPES (length (filter (\<lambda>sh. shape_life sh > 0) (map age_shape (shapesRef s)))) \<and>
    length (particlesRef (animate_const s)) =
      min 200 (length (filter (\<lambda>p. p_life p > 0) (map (age_particle 0.2) (particlesRef s))))"
    by (simp only: animate_const_pools kept_length simp_thms)
  have f: "shapesRef (animate_fixed now cv s) = drop (length (filter (\<lambda>sh. shape_life sh > 0) (map age_shape (shapesRef s))) - MAX_SHAPES)
         (filter (\<lambda>sh. shape_life sh > 0) (map age_shape (shapesRef s))) \<and>
    particlesRef (animate_fixed now cv s) = drop (length (filter (\<lambda>p. p_life p > 0) (map (age_particle 0.05) (particlesRef s))) - 100)
         (filter (\<lambda>p. p_life p > 0) (map (age_particle 0.05) (particlesRef s))) \<and>
    length (shapesRef (animate_fixed now cv s)) =
      min MAX_SHAPES (length (filter (\<lambda>sh. shape_life sh > 0) (map age_shape (shapesRef s)))) \<and>
    length (particlesRef (animate_fixed now cv s)) =
      min 100 (length (filter (\<lambda>p. p_life p > 0) (map (age_particle 0.05) (particlesRef s))))"
    by (simp only: animate_fixed_pools kept_length simp_thms)
  have g: "shapesRef (animate_layout now cv s) = drop (length (filter (\<lambda>sh. shape_life sh > 0) (map age_shape (shapesRef s))) - MAX_SHAPES)
         (filter (\<lambda>sh. shape_life sh > 0) (map age_shape (shapesRef s))) \<and>
    particlesRef (animate_layout now cv s) = drop (length (filter (\<lambda>p. p_life p > 0) (map (age_particle 0.05) (particlesRef s))) - 100)
         (filter (\<lambda>p. p_life p > 0) (map (age_particle 0.05) (particlesRef s))) \<and>
    length (shapesRef (animate_layout now cv s)) =
      min MAX_SHAPES (length (filter (\<lambda>sh. shape_life sh > 0) (map age_shape (shapesRef s)))) \<and>
    length (particlesRef (animate_layout now cv s)) =
      min 100 (length (filter (\<lambda>p. p_life p > 0) (map (age_particle 0.05) (particlesRef s))))"
    by (simp only: animate_layout_pools kept_length simp_thms)
  show ?thesis
    unfolding Let_def using a b c d e f g by blast
qed

theorem pools_bounded_after_each_frame_witness:
  "length (shapesRef (projr (run_dyn (map (\<lambda>t. Pointer demo_browser t 150 150 demo_canvas)
      (map (\<lambda>k. 1000 + 16 * int k) [0..<34])) initial_state))) = 102 \<and>
   length (shapesRef (projr (animate_dyn 2000 demo_canvas
     (projr (run_dyn (map (\<lambda>t. Pointer demo_browser t 150 150 demo_canvas)
      (map (\<lambda>k. 1000 + 16 * int k) [0..<34])) initial_state))))) = 100 \<and>
   shapesRef (projr (animate_dyn 2000 demo_canvas
     (projr (run_dyn (map (\<lambda>t. Pointer demo_browser t 150 150 demo_canvas)
      (map (\<lambda>k. 1000 + 16 * int k) [0..<34])) initial_state)))) =
     drop 2 (map age_shape (shapesRef
       (projr (run_dyn (map (\<lambda>t. Pointer demo_browser t 150 150 demo_canvas)
          (map (\<lambda>k. 1000 + 16 * int k) [0..<34])) initial_state)))) \<and>
   length (particlesRef (projr (animate_dyn 2000 demo_canvas
     (projr (run_dyn (map (\<lambda>t. Pointer demo_browser t 150 150 demo_canvas)
      (map (\<lambda>k. 1000 + 16 * int k) [0..<34])) initial_state))))) = 68 \<and>
   length (shapesRef (projr (handleInteractionLogic_dyn demo_browser 2016 150 150 demo_canvas
     (projr (run_dyn (map (\<lambda>t. Pointer demo_browser t 150 150 demo_canvas)
      (map (\<lambda>k. 1000 + 16 * int k) [0..<34])) initial_state))))) = 105"
proof -
  let ?run = "run_dyn (map (\<lambda>t. Pointer demo_browser t 150 150 demo_canvas)
      (map (\<lambda>k. 1000 + 16 * int k) [0..<34])) initial_state"
  have ok: "0 < canvas_height demo_canvas" "64 * canvas_width demo_canvas \<le> 4294967295"
    by (simp_all add: demo_canvas_def)
  have e: "shapesRef initial_state = []" "particlesRef initial_state = []"
    by (simp_all add: initial_state_def)
  obtain S where S: "?run = Inr S" "length (shapesRef S) = 102" "length (particlesRef S) = 68"
    using run_dyn_pointers [OF ok, of demo_browser 150 150
        "map (\<lambda>k. 1000 + 16 * int k) [0..<34]" initial_state]
    by (auto simp add: e)
  have fresh: "\<forall>sh\<in>set (shapesRef S). shape_life sh = 1" "\<forall>p\<in>set (particlesRef S). p_life p = 1"
    using run_dyn_pointers_fresh [OF ok _ _ S(1)] by (simp_all add: e)
  have sh: "filter (\<lambda>sh. shape_life sh > 0) (map age_shape (shapesRef S)) = map age_shape (shapesRef S)"
    using fresh(1) by (intro filter_True) (simp add: age_shape_life)
  have pa: "filter (\<lambda>p. p_life p > 0) (map (age_particle 0.05) (particlesRef S)) =
      map (age_particle 0.05) (particlesRef S)"
    using fresh(2) by (intro filter_True) (simp add: age_particle_life)
  obtain s'' where h: "handleInteractionLogic_dyn demo_browser 2016 150 150 demo_canvas S = Inr s''"
    using dyn_returns [OF ok] by blast
  note t = pools_bounded_after_each_frame
    [where cv = demo_canvas and s = S and now = 2000 and b = demo_browser and t = 2016
      and x = 150 and y = 150 and s'' = s'', unfolded Let_def sh pa]
  from t ok obtain s1 where a: "animate_dyn 2000 demo_canvas S = Inr s1"
    by blast
  from t [where s' = s1] a h
  have "shapesRef s1 = drop (length (map age_shape (shapesRef S)) - MAX_SHAPES)
           (map age_shape (shapesRef S)) \<and>
        length (shapesRef s1) = min MAX_SHAPES (length (map age_shape (shapesRef S))) \<and>
        length (particlesRef s1) = min 100 (length (map (age_particle 0.05) (particlesRef S))) \<and>
        MAX_SHAPES = 100 \<and>
        length (shapesRef s'') = length (shapesRef S) + 3"
    by blast
  then have "shapesRef s1 = drop 2 (map age_shape (shapesRef S)) \<and>
        length (shapesRef s1) = 100 \<and> length (particlesRef s1) = 68 \<and>
        length (shapesRef s'') = 105"
    using S(2,3) by (simp add: MAX_SHAPES_def)
  then show ?thesis unfolding S(1) sum.sel a h using S(2) by simp
qed

text \<open>
  C6. For an active highlight (positive opacity) triggered at \<open>ch_time\<close>, one pass of
  \<open>drawCellHighlights\<close> at time \<open>now\<close> gives opacity 1 at elapsed time 0 and opacity 0 at
  elapsed time 500; the opacity does not increase from an earlier to a later frame
  within the 500 ms; past 500 ms the opacity is reset to 0 and every later pass leaves
  the highlight as it is. The pass over the array applies this step to every highlight
  present.
\<close>

theorem highlight_decay:
  assumes "0 < ch_alpha ch"
  shows "(now = ch_time ch \<longrightarrow> ch_alpha (highlight_step now ch) = 1) \<and>
         (now - ch_time ch = 500 \<longrightarrow> ch_alpha (highlight_step now ch) = 0) \<and>
         (ch_time ch \<le> t1 \<and> t1 \<le> t2 \<and> t2 - ch_time ch \<le> 500 \<longrightarrow>
            ch_alpha (highlight_step t2 ch) \<le> ch_alpha (highlight_step t1 ch) \<and>
            ch_alpha (highlight_step t2 (highlight_step t1 ch)) \<le> ch_alpha (highlight_step t1 ch)) \<and>
         (now - ch_time ch > 500 \<longrightarrow>
            ch_alpha (highlight_step now ch) = 0 \<and>
            (\<forall>later. highlight_step later (highlight_step now ch) = highlight_step now ch)) \<and>
         (i < length (cellHighlightsRef s) \<and> i < n \<and> cellHighlightsRef s ! i = Some ch \<longrightarrow>
            cellHighlightsRef (drawCellHighlights n now s) ! i = Some (highlight_step now ch))"
proof (intro conjI impI)
  assume "now = ch_time ch"
  then show "ch_alpha (highlight_step now ch) = 1"
    using assms by (simp add: highlight_step_alpha)
next
  assume "now - ch_time ch = 500"
  then show "ch_alpha (highlight_step now ch) = 0"
    using assms by (simp add: highlight_step_alpha)
next
  assume h: "ch_time ch \<le> t1 \<and> t1 \<le> t2 \<and> t2 - ch_time ch \<le> 500"
  then have le: "real_of_int (t1 - ch_time ch) \<le> real_of_int (t2 - ch_time ch)"
    and b1: "real_of_int (t1 - ch_time ch) \<le> 500" and b2: "real_of_int (t2 - ch_time ch) \<le> 500"
    by linarith+
  have a1: "ch_alpha (highlight_step t1 ch) = 1 - real_of_int (t1 - ch_time ch) / 500"
    and a2: "ch_alpha (highlight_step t2 ch) = 1 - real_of_int (t2 - ch_time ch) / 500"
    using assms b1 b2 by (simp_all add: highlight_step_alpha)
  show "ch_alpha (highlight_step t2 ch) \<le> ch_alpha (highlight_step t1 ch)"
    unfolding a1 a2 using le by (simp add: divide_right_mono)
  have tm: "ch_time (highlight_step t1 ch) = ch_time ch"
    by (simp add: highlight_step_def Let_def)
  show "ch_alpha (highlight_step t2 (highlight_step t1 ch)) \<le> ch_alpha (highlight_step t1 ch)"
  proof (cases "0 < ch_alpha (highlight_step t1 ch)")
    case True
    then have "ch_alpha (highlight_step t2 (highlight_step t1 ch)) =
        1 - real_of_int (t2 - ch_time ch) / 500"
      using b2 by (simp add: highlight_step_alpha tm)
    then show ?thesis unfolding a1 using le by (simp add: divide_right_mono)
  next
    case False
    then show ?thesis by (simp add: highlight_step_inert)
  qed
next
  assume "now - ch_time ch > 500"
  then show "ch_alpha (highlight_step now ch) = 0"
    using assms by (simp add: highlight_step_alpha)
next
  assume h: "now - ch_time ch > 500"
  then have "ch_alpha (highlight_step now ch) = 0"
    using assms by (simp add: highlight_step_alpha)
  then show "\<forall>later. highlight_step later (highlight_step now ch) = highlight_step now ch"
    by (simp add: highlight_step_inert)
next
  assume "i < length (cellHighlightsRef s) \<and> i < n \<and> cellHighlightsRef s ! i = Some ch"
  then show "cellHighlightsRef (drawCellHighlights n now s) ! i = Some (highlight_step now ch)"
    by (simp add: drawCellHighlights_nth)
qed

theorem highlight_decay_witness:
  "ch_alpha (highlight_step 1000 (new_highlight 1000)) = 1 \<and>
   ch_alpha (highlight_step 1500 (new_highlight 1000)) = 0 \<and>
   ch_alpha (highlight_step 1250 (new_highlight 1000))
     \<le> ch_alpha (highlight_step 1000 (new_highlight 1000)) \<and>
   ch_alpha (highlight_step 1600 (new_highlight 1000)) = 0 \<and>
   highlight_step 1700 (highlight_step 1600 (new_highlight 1000)) =
     highlight_step 1600 (new_highlight 1000) \<and>
   cellHighlightsRef (drawCellHighlights 112 1250
      (initial_state\<lparr>cellHighlightsRef := [Some (new_highlight 1000)]\<rparr>)) ! 0 =
     Some (highlight_step 1250 (new_highlight 1000))"
proof -
  have a: "0 < ch_alpha (new_highlight 1000)" "ch_time (new_highlight 1000) = 1000"
    by (simp_all add: new_highlight_def)
  have "ch_alpha (highlight_step 1000 (new_highlight 1000)) = 1"
    using highlight_decay [OF a(1), where now = 1000 and ?t1.0 = 0 and ?t2.0 = 0
        and i = 0 and n = 0 and s = initial_state] a(2)
    by simp
  moreover have "ch_alpha (highlight_step 1500 (new_highlight 1000)) = 0"
    using highlight_decay [OF a(1), where now = 1500 and ?t1.0 = 0 and ?t2.0 = 0
        and i = 0 and n = 0 and s = initial_state] a(2)
    by simp
  moreover have "ch_alpha (highlight_step 1600 (new_highlight 1000)) = 0 \<and>
    highlight_step 1700 (highlight_step 1600 (new_highlight 1000)) =
     highlight_step 1600 (new_highlight 1000)"
    using highlight_decay [OF a(1), where now = 1600 and ?t1.0 = 0 and ?t2.0 = 0
        and i = 0 and n = 0 and s = initial_state] a(2)
    by simp
  moreover have "ch_alpha (highlight_step 1250 (new_highlight 1000))
     \<le> ch_alpha (highlight_step 1000 (new_highlight 1000))"
    using highlight_decay [OF a(1), where ?t1.0 = 1000 and ?t2.0 = 1250 and now = 1000
        and i = 0 and n = 0 and s = initial_state] a(2)
    by simp
  moreover have "cellHighlightsRef (drawCellHighlights 112 1250
      (initial_state\<lparr>cellHighlightsRef := [Some (new_highlight 1000)]\<rparr>)) ! 0 =
     Some (highlight_step 1250 (new_highlight 1000))"
    using highlight_decay [OF a(1), where i = 0 and n = 112 and now = 1250
        and ?t1.0 = 0 and ?t2.0 = 0
        and s = "initial_state\<lparr>cellHighlightsRef := [Some (new_highlight 1000)]\<rparr>"]
    by simp
  ultimately show ?thesis by simp
qed




text \<open>
  C8 (the code departs from the claim). Outside a secure context \<open>playSound\<close> warns and
  schedules nothing, but \<open>playDrum\<close>, which has no such test, schedules its square-wave
  hit without a warning: an interaction at (0, 150) in the drum column of the fixed
  variant plays the drum. Both players warn and schedule nothing when no AudioContext
  class exists.
\<close>

theorem playDrum_ignores_secure_context:
  "\<not> isSecureContext insecure_browser \<and>
   effects (playSound insecure_browser (Some 130.81) (Num (113 / 140)) initial_state) =
     [Warn ''AudioContext requires secure context (HTTPS)''] \<and>
   effects (playDrum insecure_browser (Num (113 / 140)) initial_state) =
     [Oscillator Square (Some 60) (Num (113 / 140)) 0.1] \<and>
   effects (handleInteractionLogic_fixed insecure_browser 1000 0 150 demo_canvas
     (mount_fixed initial_state)) = [Oscillator Square (Some 60) (Num (113 / 140)) 0.1] \<and>
   effects (playSound unsupported_browser (Some 130.81) (Num (113 / 140)) initial_state) =
     [Warn ''AudioContext not supported''] \<and>
   effects (playDrum unsupported_browser (Num (113 / 140)) initial_state) =
     [Warn ''AudioContext not supported'']"
  by (simp add: insecure_browser_def unsupported_browser_def demo_browser_def playSound_def playDrum_def
      initial_state_def mount_fixed_def handleInteractionLogic_fixed_def Let_def
      push_shape_funpow push_particle_funpow cell_of_def js_div_def rows_def columns_fixed_def
      demo_canvas_def volume_of_def js_sub_def)

text \<open>
  C9. In the orientation variant, every run that starts with the mount's layout update
  ends in a state whose scale has exactly \<open>noteRows * noteCols\<close> = 5 * (columns - 2)
  entries; \<open>updateLayoutAndScale\<close> sets 16 or 9 columns by orientation and regenerates the
  scale for them; and a resize from landscape to portrait replaces the 70-note scale by
  the 35-note one before the next interaction is handled.
\<close>

theorem scale_length_follows_layout:
  "(\<exists>s'. run_layout (Resize b0 # evs) s = Inr s' \<and>
          length (scaleRef s') = noteRowsRef s' * noteColsRef s' \<and>
          noteColsRef s' = columns s' - 2 \<and> noteRowsRef s' = 5 \<and>
          totalNotesRef s' = length (scaleRef s')) \<and>
   (\<exists>s1. updateLayoutAndScale b s = Inr s1 \<and>
          columns s1 = (if innerHeight b > innerWidth b then 9 else 16) \<and>
          scaleRef s1 = map semitone [0..<5 * (columns s1 - 2)]) \<and>
   (innerHeight b1 \<le> innerWidth b1 \<and> innerHeight b2 > innerWidth b2 \<longrightarrow>
      (\<exists>s1 s2. updateLayoutAndScale b1 s = Inr s1 \<and>
              columns s1 = 16 \<and> length (scaleRef s1) = 70 \<and>
              updateLayoutAndScale b2 s1 = Inr s2 \<and>
              columns s2 = 9 \<and> length (scaleRef s2) = 35 \<and>
              run_layout (Resize b2 # Pointer b now x y cv # evs) s1 =
                run_layout evs (handleInteractionLogic_layout b now x y cv s2)))"
proof (intro conjI impI)
  obtain s0 where s0: "updateLayoutAndScale b0 s = Inr s0" "layout_consistent s0"
    using updateLayoutAndScale_consistent by blast
  obtain s' where "run_layout evs s0 = Inr s'" "layout_consistent s'"
    using run_layout_consistent [OF s0(2)] by blast
  then show "\<exists>s'. run_layout (Resize b0 # evs) s = Inr s' \<and>
          length (scaleRef s') = noteRowsRef s' * noteColsRef s' \<and>
          noteColsRef s' = columns s' - 2 \<and> noteRowsRef s' = 5 \<and>
          totalNotesRef s' = length (scaleRef s')"
    using s0(1) by (auto simp add: layout_consistent_def)
next
  show "\<exists>s1. updateLayoutAndScale b s = Inr s1 \<and>
          columns s1 = (if innerHeight b > innerWidth b then 9 else 16) \<and>
          scaleRef s1 = map semitone [0..<5 * (columns s1 - 2)]"
    by (simp add: updateLayoutAndScale_result)
next
  assume "innerHeight b1 \<le> innerWidth b1 \<and> innerHeight b2 > innerWidth b2"
  then show "\<exists>s1 s2. updateLayoutAndScale b1 s = Inr s1 \<and>
              columns s1 = 16 \<and> length (scaleRef s1) = 70 \<and>
              updateLayoutAndScale b2 s1 = Inr s2 \<and>
              columns s2 = 9 \<and> length (scaleRef s2) = 35 \<and>
              run_layout (Resize b2 # Pointer b now x y cv # evs) s1 =
                run_layout evs (handleInteractionLogic_layout b now x y cv s2)"
    by (simp add: updateLayoutAndScale_result)
qed

theorem scale_length_follows_layout_witness:
  "length (scaleRef (projr (updateLayoutAndScale landscape_browser initial_state))) = 70 \<and>
   columns (projr (updateLayoutAndScale portrait_browser
      (projr (updateLayoutAndScale landscape_browser initial_state)))) = 9 \<and>
   length (scaleRef (projr (updateLayoutAndScale portrait_browser
      (projr (updateLayoutAndScale landscape_browser initial_state))))) = 35 \<and>
   length (scaleRef (projr (run_layout
      [Resize landscape_browser, Resize portrait_browser,
       Pointer portrait_browser 1000 150 150 demo_canvas] initial_state))) = 35"
proof -
  have o: "innerHeight landscape_browser \<le> innerWidth landscape_browser \<and>
           innerHeight portrait_browser > innerWidth portrait_browser"
    by (simp add: landscape_browser_def portrait_browser_def demo_browser_def)
  from scale_length_follows_layout
    [where ?b1.0 = landscape_browser and ?b2.0 = portrait_browser and s = initial_state
       and b = portrait_browser and now = 1000 and x = 150 and y = 150 and cv = demo_canvas
       and evs = "[]" and ?b0.0 = landscape_browser] o
  obtain s1 s2 where
    a: "updateLayoutAndScale landscape_browser initial_state = Inr s1"
       "length (scaleRef s1) = 70"
       "updateLayoutAndScale portrait_browser s1 = Inr s2"
       "columns s2 = 9" "length (scaleRef s2) = 35"
       "run_layout [Resize portrait_browser, Pointer portrait_browser 1000 150 150 demo_canvas] s1 =
          run_layout [] (handleInteractionLogic_layout portrait_browser 1000 150 150 demo_canvas s2)"
    by blast
  show ?thesis
    using a by (simp add: layout_fields_unchanged)
qed

text \<open>
  C10. The 100 ms gate guards only the sound. For an interaction on a note cell of the
  fixed variant, and for one inside the grid of the 8-row variant, the handler records
  the highlight (opacity 1, scale 1.2, the current time) at the cell's index and appends
  three shapes and two particles whether or not the gate is open; with the gate closed
  no player is called and nothing is scheduled, so the cell flashes without a tone.
\<close>

theorem visuals_on_every_note_interaction:
  "(note_cell_fixed x y cv \<longrightarrow>
      (let s' = handleInteractionLogic_fixed b now x y cv s;
           cellX = cell_of x (real (canvas_height cv) / real rows);
           cellY = cell_of y (real (canvas_height cv) / real rows);
           cellIndex = js_add (js_mul cellY (Num (real columns_fixed))) cellX
       in cellHighlightsRef s' =
            js_set (cellHighlightsRef s) cellIndex
              \<lparr>ch_alpha = 1, ch_scale = 1.2, ch_time = now\<rparr> \<and>
          js_get (cellHighlightsRef s') cellIndex =
            Some (Some \<lparr>ch_alpha = 1, ch_scale = 1.2, ch_time = now\<rparr>) \<and>
          length (shapesRef s') = length (shapesRef s) + 3 \<and>
          length (particlesRef s') = length (particlesRef s) + 2 \<and>
          (\<not> now - lastSoundTimeRef s > 100 \<longrightarrow>
             calls s' = calls s \<and> effects s' = effects s))) \<and>
   (in_grid_dyn x y cv \<and> handleInteractionLogic_dyn b now x y cv s = Inr d \<longrightarrow>
      (let cellSize = real (canvas_height cv) / real rows_dyn;
           cols = js_floor (js_div (real (canvas_width cv)) cellSize);
           cellIndex = js_add (js_mul (cell_of y cellSize) cols) (cell_of x cellSize)
       in cellHighlightsRef d =
            js_set (cellHighlightsRef s) cellIndex
              \<lparr>ch_alpha = 1, ch_scale = 1.2, ch_time = now\<rparr> \<and>
          js_get (cellHighlightsRef d) cellIndex =
            Some (Some \<lparr>ch_alpha = 1, ch_scale = 1.2, ch_time = now\<rparr>) \<and>
          length (shapesRef d) = length (shapesRef s) + 3 \<and>
          length (particlesRef d) = length (particlesRef s) + 2 \<and>
          (\<not> now - lastSoundTimeRef s > 100 \<longrightarrow>
             calls d = calls s \<and> effects d = effects s)))"
proof (intro conjI impI)
  assume n: "note_cell_fixed x y cv"
  show "let s' = handleInteractionLogic_fixed b now x y cv s;
           cellX = cell_of x (real (canvas_height cv) / real rows);
           cellY = cell_of y (real (canvas_height cv) / real rows);
           cellIndex = js_add (js_mul cellY (Num (real columns_fixed))) cellX
       in cellHighlightsRef s' =
            js_set (cellHighlightsRef s) cellIndex
              \<lparr>ch_alpha = 1, ch_scale = 1.2, ch_time = now\<rparr> \<and>
          js_get (cellHighlightsRef s') cellIndex =
            Some (Some \<lparr>ch_alpha = 1, ch_scale = 1.2, ch_time = now\<rparr>) \<and>
          length (shapesRef s') = length (shapesRef s) + 3 \<and>
          length (particlesRef s') = length (particlesRef s) + 2 \<and>
          (\<not> now - lastSoundTimeRef s > 100 \<longrightarrow>
             calls s' = calls s \<and> effects s' = effects s)"
    unfolding Let_def new_highlight_def [symmetric]
    using fixed_note [OF n, where b = b and now = now and s = s] by (simp add: fixed_pools)
next
  assume "in_grid_dyn x y cv \<and> handleInteractionLogic_dyn b now x y cv s = Inr d"
  then have g: "in_grid_dyn x y cv" and r: "handleInteractionLogic_dyn b now x y cv s = Inr d"
    by simp_all
  show "let cellSize = real (canvas_height cv) / real rows_dyn;
           cols = js_floor (js_div (real (canvas_width cv)) cellSize);
           cellIndex = js_add (js_mul (cell_of y cellSize) cols) (cell_of x cellSize)
       in cellHighlightsRef d =
            js_set (cellHighlightsRef s) cellIndex
              \<lparr>ch_alpha = 1, ch_scale = 1.2, ch_time = now\<rparr> \<and>
          js_get (cellHighlightsRef d) cellIndex =
            Some (Some \<lparr>ch_alpha = 1, ch_scale = 1.2, ch_time = now\<rparr>) \<and>
          length (shapesRef d) = length (shapesRef s) + 3 \<and>
          length (particlesRef d) = length (particlesRef s) + 2 \<and>
          (\<not> now - lastSoundTimeRef s > 100 \<longrightarrow>
             calls d = calls s \<and> effects d = effects s)"
    unfolding Let_def new_highlight_def [symmetric]
    using dyn_note [OF r g] dyn_pools [OF r] by simp
qed

theorem visuals_on_every_note_interaction_witness:
  "js_get (cellHighlightsRef (handleInteractionLogic_fixed demo_browser 1050 150 150 demo_canvas
      (handleInteractionLogic_fixed demo_browser 1000 150 150 demo_canvas
        (mount_fixed initial_state)))) (Num 17) =
     Some (Some \<lparr>ch_alpha = 1, ch_scale = 1.2, ch_time = 1050\<rparr>) \<and>
   calls (handleInteractionLogic_fixed demo_browser 1050 150 150 demo_canvas
      (handleInteractionLogic_fixed demo_browser 1000 150 150 demo_canvas
        (mount_fixed initial_state))) =
     calls (handleInteractionLogic_fixed demo_browser 1000 150 150 demo_canvas
        (mount_fixed initial_state)) \<and>
   length (shapesRef (handleInteractionLogic_fixed demo_browser 1050 150 150 demo_canvas
      (handleInteractionLogic_fixed demo_browser 1000 150 150 demo_canvas
        (mount_fixed initial_state)))) = 6 \<and>
   js_get (cellHighlightsRef (projr (handleInteractionLogic_dyn demo_browser 1050 150 150
      demo_canvas (handleInteractionLogic_fixed demo_browser 1000 150 150 demo_canvas
        (mount_fixed initial_state))))) (Num 19) =
     Some (Some \<lparr>ch_alpha = 1, ch_scale = 1.2, ch_time = 1050\<rparr>)"
proof -
  let ?s = "handleInteractionLogic_fixed demo_browser 1000 150 150 demo_canvas
        (mount_fixed initial_state)"
  have ok: "0 < canvas_height demo_canvas" "64 * canvas_width demo_canvas \<le> 4294967295"
    by (simp_all add: demo_canvas_def)
  obtain d where r: "handleInteractionLogic_dyn demo_browser 1050 150 150 demo_canvas ?s = Inr d"
    using dyn_returns [OF ok] by blast
  have last: "lastSoundTimeRef ?s = 1000"
    by (simp add: fixed_last sound_cell_150 mount_fixed_def initial_state_def)
  have len: "length (shapesRef ?s) = 3"
    by (simp add: fixed_pools mount_fixed_def initial_state_def)
  have i17: "js_add (js_mul (cell_of 150 (real (canvas_height demo_canvas) / real rows))
               (Num (real columns_fixed)))
               (cell_of 150 (real (canvas_height demo_canvas) / real rows)) = Num 17"
    by (simp add: demo_canvas_def rows_def columns_fixed_def cell_of_def js_div_def)
  have i19: "js_add (js_mul (cell_of 150 (real (canvas_height demo_canvas) / real rows_dyn))
               (js_floor (js_div (real (canvas_width demo_canvas))
                  (real (canvas_height demo_canvas) / real rows_dyn))))
               (cell_of 150 (real (canvas_height demo_canvas) / real rows_dyn)) = Num 19"
    by (simp add: demo_canvas_def rows_dyn_def cell_of_def js_div_def)
  note t = visuals_on_every_note_interaction
    [where x = 150 and y = 150 and cv = demo_canvas and b = demo_browser and now = 1050
      and s = ?s and d = d]
  have closed: "\<not> 1050 - lastSoundTimeRef ?s > 100"
    by (simp add: last)
  from t note_cell_150 in_grid_150 r closed
  have "js_get (cellHighlightsRef
          (handleInteractionLogic_fixed demo_browser 1050 150 150 demo_canvas ?s)) (Num 17) =
          Some (Some \<lparr>ch_alpha = 1, ch_scale = 1.2, ch_time = 1050\<rparr>) \<and>
        calls (handleInteractionLogic_fixed demo_browser 1050 150 150 demo_canvas ?s) = calls ?s \<and>
        length (shapesRef (handleInteractionLogic_fixed demo_browser 1050 150 150 demo_canvas ?s)) =
          length (shapesRef ?s) + 3 \<and>
        js_get (cellHighlightsRef d) (Num 19) =
          Some (Some \<lparr>ch_alpha = 1, ch_scale = 1.2, ch_time = 1050\<rparr>)"
    unfolding Let_def i17 i19 by blast
  then show ?thesis
    unfolding r sum.sel len by simp
qed

end
